theory Spec2Isabelle
  imports Main
begin

text \<open>
  The instruction-sync extension copies a team's instructions document, per detected
  language, from a remote URL or a local path into a file of the workspace. This theory
  embeds its source resolution, merge, validation and confirmation logic, function by
  function, from the current revision of \<^verbatim>\<open>extension.ts\<close> (the one whose exports the
  tests import), and proves properties of it. The editor, the file system and the network
  are arguments: a record of the operations the code calls, and a record of the state.
\<close>

section \<open>Strings\<close>

text \<open>
  JavaScript strings are modelled as \<^typ>\<open>string\<close>: a character is a code point below 256
  (the Latin-1 range). On that range \<open>toLowerCase\<close>, \<open>trim\<close>, \<open>startsWith\<close> and
  \<open>includes\<close> below are the ECMAScript functions; text with code points from 256 on is
  outside the model.
\<close>

definition isUpper :: "char \<Rightarrow> bool" where
  \<comment> \<open>The code points below 256 that \<open>String.prototype.toLowerCase\<close> changes:
      A-Z, and U+00C0-U+00DE without the multiplication sign U+00D7.\<close>
  "isUpper c =
     (let n = (of_char c :: nat)
      in (65 \<le> n \<and> n \<le> 90) \<or> (192 \<le> n \<and> n \<le> 222 \<and> n \<noteq> 215))"

definition lowerChar :: "char \<Rightarrow> char" where
  \<comment> \<open>The lower-case letter is 32 above the upper-case one: bit 5, clear in every
      upper-case code point, is set.\<close>
  "lowerChar c =
     (if isUpper c
      then (case c of Char b0 b1 b2 b3 b4 b5 b6 b7 \<Rightarrow> Char b0 b1 b2 b3 b4 True b6 b7)
      else c)"

definition toLowerCase :: "string \<Rightarrow> string" where
  "toLowerCase s = map lowerChar s"

definition isWhiteSpace :: "char \<Rightarrow> bool" where
  \<comment> \<open>What \<open>String.prototype.trim\<close> strips, below 256: TAB, LF, VT, FF, CR, space, NBSP.\<close>
  "isWhiteSpace c = (of_char c \<in> {9, 10, 11, 12, 13, 32, 160 :: nat})"

definition trim :: "string \<Rightarrow> string" where
  "trim s = rev (dropWhile isWhiteSpace (rev (dropWhile isWhiteSpace s)))"

fun startsWith :: "string \<Rightarrow> string \<Rightarrow> bool" where
  "startsWith s [] = True"
| "startsWith [] (p # ps) = False"
| "startsWith (c # cs) (p # ps) = (c = p \<and> startsWith cs ps)"

fun includesStr :: "string \<Rightarrow> string \<Rightarrow> bool" where
  \<comment> \<open>\<open>s.includes(t)\<close>: \<open>t\<close> occurs in \<open>s\<close> at some position.\<close>
  "includesStr [] t = (t = [])"
| "includesStr (c # cs) t = (startsWith (c # cs) t \<or> includesStr cs t)"


section \<open>Instruction sources and their destination\<close>

text \<open>
  \<^verbatim>\<open>interface InstructionSource { language: string; url: string; enabled?: boolean;
     destinationFolder?: string; destinationFile?: string; }\<close>
  An optional field that is absent (\<open>undefined\<close>) or \<open>null\<close> is \<open>None\<close>.
\<close>

record InstructionSource =
  language :: string
  url :: string
  enabled :: "bool option"
  destinationFolder :: "string option"
  destinationFile :: "string option"

record DestinationPath =
  folder :: string
  "file" :: string
  fullPath :: string

definition getDestinationPath :: "InstructionSource option \<Rightarrow> DestinationPath" where
  \<comment> \<open>\<open>source?.destinationFolder ?? '.github'\<close>: the default is taken when there is no
      source or the field is absent, and only then (\<open>??\<close>, not \<open>||\<close>).\<close>
  "getDestinationPath source =
     (let folder = (case source of None \<Rightarrow> ''.github''
                    | Some s \<Rightarrow> (case destinationFolder s of None \<Rightarrow> ''.github'' | Some d \<Rightarrow> d));
          file = (case source of None \<Rightarrow> ''copilot-instructions.md''
                  | Some s \<Rightarrow> (case destinationFile s of None \<Rightarrow> ''copilot-instructions.md''
                                | Some f \<Rightarrow> f))
      in \<lparr>folder = folder, file = file, fullPath = folder @ ''/'' @ file\<rparr>)"


section \<open>Merging remote and local sources\<close>

text \<open>
  \<^verbatim>\<open>interface RemoteConfig { sources?: InstructionSource[]; syncOnOpen?: boolean;
     syncOnConfigChange?: boolean; confirmBeforeSync?: boolean; }\<close>
\<close>

record RemoteConfig =
  sources :: "InstructionSource list option"
  syncOnOpen :: "bool option"
  syncOnConfigChange :: "bool option"
  confirmBeforeSyncRemote :: "bool option"

text \<open>
  A JavaScript \<open>Map\<close> keeps its keys in the order of their first insertion;
  \<open>set\<close> on a key already there replaces the value and leaves the position.
\<close>

type_synonym 'v jsMap = "(string \<times> 'v) list"

primrec Map_set :: "string \<Rightarrow> 'v \<Rightarrow> 'v jsMap \<Rightarrow> 'v jsMap" where
  "Map_set k v [] = [(k, v)]"
| "Map_set k v (e # es) = (if fst e = k then (k, v) # es else e # Map_set k v es)"

definition Map_values :: "'v jsMap \<Rightarrow> 'v list" where
  "Map_values m = map snd m"

definition sourceKey :: "InstructionSource \<Rightarrow> string" where
  \<comment> \<open>\<open>`${s.language.toLowerCase()}::${fullPath}`\<close>\<close>
  "sourceKey s = toLowerCase (language s) @ ''::'' @ fullPath (getDestinationPath (Some s))"

primrec setAll :: "InstructionSource list \<Rightarrow> InstructionSource jsMap \<Rightarrow> InstructionSource jsMap" where
  \<comment> \<open>\<open>for (const source of xs) { merged.set(sourceKey(source), source); }\<close>\<close>
  "setAll [] merged = merged"
| "setAll (source # xs) merged = setAll xs (Map_set (sourceKey source) source merged)"

definition getInstructionSources ::
  "RemoteConfig option \<Rightarrow> InstructionSource list \<Rightarrow> InstructionSource list" where
  \<comment> \<open>The two arguments are what \<open>fetchRemoteConfig(forceRefresh)\<close> and
      \<open>getLocalInstructionSources()\<close> returned.\<close>
  "getInstructionSources remoteConfig localSources =
     (case (case remoteConfig of None \<Rightarrow> None | Some rc \<Rightarrow> sources rc) of
        None \<Rightarrow> localSources
      | Some remoteSources \<Rightarrow>
          if length remoteSources = 0 then localSources
          else if length localSources = 0 then remoteSources
          else Map_values (setAll localSources (setAll remoteSources [])))"

text \<open>
  The merge as the specification words it, without the two short cuts: an ordered map keyed
  by the identity key \<open>lowercase(language) + "::" + destinationFolder + "/" + destinationFile\<close>
  (the defaults standing in for an absent folder or file); all remote sources are inserted in
  list order, then all local sources; a later insertion at a key replaces the earlier value;
  the result is the map's values in insertion order.
\<close>

definition spec_identityKey :: "InstructionSource \<Rightarrow> string" where
  "spec_identityKey s =
     toLowerCase (language s) @ ''::''
       @ (case destinationFolder s of None \<Rightarrow> ''.github'' | Some d \<Rightarrow> d) @ ''/''
       @ (case destinationFile s of None \<Rightarrow> ''copilot-instructions.md'' | Some f \<Rightarrow> f)"

fun spec_insert :: "InstructionSource \<Rightarrow> InstructionSource list \<Rightarrow> InstructionSource list" where
  "spec_insert s [] = [s]"
| "spec_insert s (x # xs) =
     (if spec_identityKey x = spec_identityKey s then s # xs else x # spec_insert s xs)"

definition spec_merge :: "InstructionSource list \<Rightarrow> InstructionSource list \<Rightarrow> InstructionSource list" where
  "spec_merge remoteSources localSources = fold spec_insert (remoteSources @ localSources) []"

definition remoteSourcesOf :: "RemoteConfig option \<Rightarrow> InstructionSource list" where
  \<comment> \<open>The remote list, an absent one read as empty.\<close>
  "remoteSourcesOf remoteConfig =
     (case remoteConfig of None \<Rightarrow> []
      | Some rc \<Rightarrow> (case sources rc of None \<Rightarrow> [] | Some xs \<Rightarrow> xs))"


section \<open>JavaScript values\<close>

text \<open>
  What \<open>JSON.parse\<close> returns, and \<open>undefined\<close> for a property that is not there. A number
  is kept as the text JavaScript prints for it (\<open>42\<close>, \<open>1.5\<close>, \<open>1e+21\<close>,
  \<open>18446744073709552000\<close>, and \<open>0\<close> for both zeros): that text tells the numbers JSON
  can give apart, but for the two zeros, and it is all the code reads of a number besides
  whether it is zero. An object is the list of its members, each key once.
\<close>

datatype jsvalue =
    Undefined
  | Null
  | Bool bool
  | Num string
  | Str string
  | Arr "jsvalue list"
  | Obj "(string \<times> jsvalue) list"

fun typeof :: "jsvalue \<Rightarrow> string" where
  "typeof Undefined = ''undefined''"
| "typeof Null = ''object''"
| "typeof (Bool b) = ''boolean''"
| "typeof (Num n) = ''number''"
| "typeof (Str s) = ''string''"
| "typeof (Arr xs) = ''object''"
| "typeof (Obj kvs) = ''object''"

fun truthy :: "jsvalue \<Rightarrow> bool" where
  "truthy Undefined = False"
| "truthy Null = False"
| "truthy (Bool b) = b"
| "truthy (Num n) = (n \<noteq> ''0'')"
| "truthy (Str s) = (s \<noteq> [])"
| "truthy (Arr xs) = True"
| "truthy (Obj kvs) = True"

fun getProp :: "jsvalue \<Rightarrow> string \<Rightarrow> jsvalue option" where
  \<comment> \<open>\<open>v.name\<close> for the data properties read here: a TypeError (\<open>None\<close>) on \<open>null\<close> and
      \<open>undefined\<close>, the member of an object, \<open>undefined\<close> otherwise.\<close>
  "getProp Undefined name = None"
| "getProp Null name = None"
| "getProp (Obj kvs) name = (case map_of kvs name of None \<Rightarrow> Some Undefined | Some v \<Rightarrow> Some v)"
| "getProp v name = Some Undefined"

fun joinWith :: "string \<Rightarrow> string list \<Rightarrow> string" where
  "joinWith sep [] = []"
| "joinWith sep [x] = x"
| "joinWith sep (x # y # ys) = x @ sep @ joinWith sep (y # ys)"

fun toStringJS :: "jsvalue \<Rightarrow> string option" where
  \<comment> \<open>The string a template literal puts in for \<open>${v}\<close>; \<open>None\<close> where the conversion
      throws a TypeError. A parsed object is converted by \<open>Object.prototype.toString\<close>
      unless it has a member \<open>toString\<close> of its own: that member is no function, what
      \<open>valueOf\<close> gives is no primitive, and the conversion throws. An array joins the
      conversions of its elements, \<open>null\<close> giving the empty string.\<close>
  "toStringJS Undefined = Some ''undefined''"
| "toStringJS Null = Some ''null''"
| "toStringJS (Bool b) = Some (if b then ''true'' else ''false'')"
| "toStringJS (Num n) = Some n"
| "toStringJS (Str s) = Some s"
| "toStringJS (Arr xs) =
     map_option (joinWith '','')
       (those (map (\<lambda>v. if v = Undefined \<or> v = Null then Some [] else toStringJS v) xs))"
| "toStringJS (Obj kvs) =
     (if map_of kvs ''toString'' = None then Some ''[object Object]'' else None)"

definition orElse :: "jsvalue \<Rightarrow> jsvalue \<Rightarrow> jsvalue" where
  \<comment> \<open>\<open>a || b\<close>\<close>
  "orElse a b = (if truthy a then a else b)"


section \<open>Validating fetched content\<close>

record Validation =
  valid :: bool
  reason :: "string option"

definition htmlErrorIndicators :: "string list" where
  "htmlErrorIndicators =
     [''<!doctype html'', ''<html'', ''<head>'', ''<title>404'', ''<title>401'', ''<title>403'',
      ''<title>500'', ''page not found'', ''access denied'', ''unauthorized'', ''sign in to'',
      ''login required'']"

definition apiErrorCheck :: "(string \<Rightarrow> jsvalue option) \<Rightarrow> string \<Rightarrow> Validation option" where
  \<comment> \<open>The \<open>try\<close> block of \<open>isValidInstructionContent\<close>: \<open>Some v\<close> when it returns \<open>v\<close>,
      \<open>None\<close> when it falls through or its \<open>catch\<close> swallows a SyntaxError of \<open>JSON.parse\<close>,
      a TypeError of the property reads, or a TypeError of the conversion in the template
      literal that builds the reason.\<close>
  "apiErrorCheck JSON_parse content =
     (case JSON_parse content of
        None \<Rightarrow> None
      | Some json \<Rightarrow>
          (case (getProp json ''message'', getProp json ''error'', getProp json ''errors'') of
             (Some message, Some error, Some errors) \<Rightarrow>
               if truthy (orElse (orElse message error) errors)
               then (case toStringJS (orElse (orElse message error) (Str ''Unknown error'')) of
                       None \<Rightarrow> None
                     | Some text \<Rightarrow>
                         Some \<lparr>valid = False, reason = Some (''API error: '' @ text)\<rparr>)
               else None
           | _ \<Rightarrow> None))"

definition isValidInstructionContent ::
  "(string \<Rightarrow> jsvalue option) \<Rightarrow> string \<Rightarrow> string \<Rightarrow> Validation" where
  \<comment> \<open>The first argument is \<open>JSON.parse\<close>: \<open>None\<close> where it throws.\<close>
  "isValidInstructionContent JSON_parse content source =
     (if content = [] \<or> length (trim content) = 0
      then \<lparr>valid = False, reason = Some ''Empty content received''\<rparr>
      else
        let lowerContent = toLowerCase content;
            trimmedLower = trim lowerContent
        in if startsWith trimmedLower ''<!doctype'' \<or> startsWith trimmedLower ''<html''
           then (if list_ex (\<lambda>indicator. includesStr lowerContent indicator) htmlErrorIndicators
                 then \<lparr>valid = False,
                       reason = Some ''Received HTML error page instead of instructions content''\<rparr>
                 else \<lparr>valid = False,
                       reason = Some ''Received HTML content instead of Markdown instructions''\<rparr>)
           else (case (if startsWith trimmedLower ''{'' then apiErrorCheck JSON_parse content
                       else None) of
                   Some v \<Rightarrow> v
                 | None \<Rightarrow> \<lparr>valid = True, reason = None\<rparr>))"


section \<open>Fetching content\<close>

type_synonym uri = string

record Response =
  ok :: bool
  status :: nat
  statusText :: string
  body :: string

datatype error =
    LocalReadFailed string
      \<comment> \<open>\<open>Failed to read local file ${source}: ...\<close>\<close>
  | RequestFailed string
      \<comment> \<open>\<open>fetch\<close> rejected\<close>
  | FetchFailed string nat string
      \<comment> \<open>\<open>Failed to fetch from ${source}: ${response.status} ${response.statusText}\<close>\<close>
  | InvalidContent string "string option"
      \<comment> \<open>\<open>Invalid content from ${source}: ${validation.reason}\<close>\<close>
  | WriteFailed uri
      \<comment> \<open>\<open>vscode.workspace.fs.writeFile\<close> threw\<close>
  | InvalidJson string
      \<comment> \<open>\<open>JSON.parse\<close> threw on the remote configuration\<close>
  | NotAnObject
      \<comment> \<open>a TypeError reading a property of \<open>null\<close>\<close>

text \<open>
  The editor and the network, as far as the code reads them. \<open>fetch env source\<close> is the
  response to the request \<open>fetchContent\<close> sends for \<open>source\<close>, with the headers and token it
  picks for that host (\<open>isGitHubUrl\<close>, \<open>isAzureDevOpsUrl\<close>, not modelled), \<open>None\<close> when the
  request itself fails. \<open>findFiles env root pattern\<close> tells whether the workspace search
  finds a file.
\<close>

record WorkspaceFolder =
  uri :: uri
  name :: string

record env =
  uriParse :: "string \<Rightarrow> uri"
  uriFile :: "string \<Rightarrow> uri"
  joinPath :: "uri \<Rightarrow> string \<Rightarrow> uri"
  fetch :: "string \<Rightarrow> Response option"
  JSON_parse :: "string \<Rightarrow> jsvalue option"
  findFiles :: "uri \<Rightarrow> string \<Rightarrow> bool"
  writeFails :: "uri \<Rightarrow> bool"
  workspaceFolders :: "WorkspaceFolder list option"
  localSources :: "InstructionSource list"
  remoteConfigFetched :: "bool \<Rightarrow> RemoteConfig option"

datatype choice = Yes | YesToAll | No | Always

datatype action = Create | Overwrite

datatype message =
    ConfirmPrompt action string string string
      \<comment> \<open>the warning with the four choices:
          \<open>${Create|Overwrite} ${file} in "${folderName}" with ${language} instructions?\<close>\<close>
  | UpdatedInfo string string string
      \<comment> \<open>\<open>Updated ${file} in "${folderName}" from ${language} configuration\<close>\<close>
  | UpToDateInfo string string
      \<comment> \<open>\<open>Instructions are already up to date for ${language} in "${folderName}"\<close>\<close>
  | SyncFailedError string string error
      \<comment> \<open>\<open>Failed to sync instructions for ${language} in "${folderName}": ${errorMessage}\<close>\<close>
  | RemoteConfigError error
      \<comment> \<open>\<open>Failed to fetch remote configuration: ${errorMessage}\<close>\<close>
  | NoWorkspaceWarning
  | NoSourcesInfo

text \<open>
  What a run changes: the files, the \<open>instructionSync.confirmBeforeSync\<close> setting
  (\<open>None\<close>: not set), the answers the user will give to the coming prompts (\<open>None\<close>: the
  prompt is dismissed; no answer left: dismissed too), and the messages shown so far. Of the
  editor's operations, reading and writing a file can fail; showing a message and updating
  the setting cannot.
\<close>

record world =
  files :: "uri \<rightharpoonup> string"
  confirmBeforeSync :: "bool option"
  answers :: "choice option list"
  shown :: "message list"

definition isAsciiLetter :: "char \<Rightarrow> bool" where
  "isAsciiLetter c =
     (let n = (of_char c :: nat) in (65 \<le> n \<and> n \<le> 90) \<or> (97 \<le> n \<and> n \<le> 122))"

fun windowsAbsolute :: "string \<Rightarrow> bool" where
  \<comment> \<open>\<open>/^[a-zA-Z]:[\\/]/.test(source)\<close>; \<open>CHR 0x5C\<close> is the backslash.\<close>
  "windowsAbsolute (c # d # e # rest) =
     (isAsciiLetter c \<and> d = CHR '':'' \<and> (e = CHR 0x5C \<or> e = CHR ''/''))"
| "windowsAbsolute s = False"

definition isLocalPath :: "string \<Rightarrow> bool" where
  "isLocalPath source =
     (if startsWith source ''file://'' then True
      else if windowsAbsolute source then True
      else if startsWith source ''/'' \<and> \<not> startsWith source ''//'' then True
      else False)"

definition localPathToUri :: "env \<Rightarrow> string \<Rightarrow> uri" where
  "localPathToUri env source =
     (if startsWith source ''file://'' then uriParse env source else uriFile env source)"

definition fetchContent :: "env \<Rightarrow> world \<Rightarrow> string \<Rightarrow> error + string" where
  "fetchContent env w source =
     (if isLocalPath source
      then (case files w (localPathToUri env source) of
              None \<Rightarrow> Inl (LocalReadFailed source)
            | Some content \<Rightarrow> Inr content)
      else (case fetch env source of
              None \<Rightarrow> Inl (RequestFailed source)
            | Some response \<Rightarrow>
                if \<not> ok response
                then Inl (FetchFailed source (status response) (statusText response))
                else
                  let content = body response;
                      validation = isValidInstructionContent (JSON_parse env) content source
                  in if \<not> valid validation
                     then Inl (InvalidContent source (reason validation))
                     else Inr content))"

definition getLocalInstructions ::
  "env \<Rightarrow> world \<Rightarrow> WorkspaceFolder \<Rightarrow> InstructionSource \<Rightarrow> string option" where
  \<comment> \<open>\<open>null\<close> (\<open>None\<close>) when the file cannot be read.\<close>
  "getLocalInstructions env w workspaceFolder source =
     files w (joinPath env (uri workspaceFolder) (fullPath (getDestinationPath (Some source))))"

definition writeLocalInstructions ::
  "env \<Rightarrow> world \<Rightarrow> WorkspaceFolder \<Rightarrow> string \<Rightarrow> InstructionSource \<Rightarrow> error + world" where
  \<comment> \<open>\<open>createDirectory\<close> comes first; its failure is swallowed, and directories are not
      part of the state.\<close>
  "writeLocalInstructions env w workspaceFolder content source =
     (let instructionsUri =
            joinPath env (uri workspaceFolder) (fullPath (getDestinationPath (Some source)))
      in if writeFails env instructionsUri then Inl (WriteFailed instructionsUri)
         else Inr (w\<lparr>files := (files w)(instructionsUri \<mapsto> content)\<rparr>))"


section \<open>Synchronising one source\<close>

record SyncSession =
  confirmAll :: bool

definition sessionConfirmAll :: "SyncSession option \<Rightarrow> bool" where
  \<comment> \<open>\<open>session?.confirmAll\<close>, as a condition\<close>
  "sessionConfirmAll session = (case session of None \<Rightarrow> False | Some s \<Rightarrow> confirmAll s)"

definition showWarningMessage :: "message \<Rightarrow> world \<Rightarrow> choice option \<times> world" where
  \<comment> \<open>The prompt is shown and the user's next answer taken.\<close>
  "showWarningMessage m w =
     (case answers w of
        [] \<Rightarrow> (None, w\<lparr>shown := shown w @ [m]\<rparr>)
      | a # rest \<Rightarrow> (a, w\<lparr>answers := rest, shown := shown w @ [m]\<rparr>))"

definition notify :: "bool \<Rightarrow> message \<Rightarrow> world \<Rightarrow> world" where
  \<comment> \<open>\<open>if (showNotifications) { vscode.window.show...Message(m); }\<close>\<close>
  "notify showNotifications m w = (if showNotifications then w\<lparr>shown := shown w @ [m]\<rparr> else w)"

definition syncFailed ::
  "WorkspaceFolder \<Rightarrow> InstructionSource \<Rightarrow> SyncSession option \<Rightarrow> error \<Rightarrow> world
     \<Rightarrow> bool \<times> SyncSession option \<times> world" where
  \<comment> \<open>The \<open>catch\<close> block of \<open>syncInstructions\<close>.\<close>
  "syncFailed workspaceFolder source session e w =
     (False, session,
      w\<lparr>shown := shown w @ [SyncFailedError (language source) (name workspaceFolder) e]\<rparr>)"

definition writeAndReport ::
  "env \<Rightarrow> WorkspaceFolder \<Rightarrow> InstructionSource \<Rightarrow> bool \<Rightarrow> SyncSession option \<Rightarrow> string
     \<Rightarrow> world \<Rightarrow> bool \<times> SyncSession option \<times> world" where
  \<comment> \<open>From \<open>await writeLocalInstructions(...)\<close> to \<open>return true\<close>.\<close>
  "writeAndReport env workspaceFolder source showNotifications session remoteContent w =
     (case writeLocalInstructions env w workspaceFolder remoteContent source of
        Inl e \<Rightarrow> syncFailed workspaceFolder source session e w
      | Inr w' \<Rightarrow>
          (True, session,
           notify showNotifications
             (UpdatedInfo (file (getDestinationPath (Some source))) (name workspaceFolder)
                (language source)) w'))"

definition syncInstructions ::
  "env \<Rightarrow> WorkspaceFolder \<Rightarrow> InstructionSource \<Rightarrow> bool \<Rightarrow> bool \<Rightarrow> SyncSession option
     \<Rightarrow> world \<Rightarrow> bool \<times> SyncSession option \<times> world" where
  \<comment> \<open>The session object is passed by reference in the source; here it is returned.\<close>
  "syncInstructions env workspaceFolder source showNotifications requireConfirmation session w =
     (case fetchContent env w (url source) of
        Inl e \<Rightarrow> syncFailed workspaceFolder source session e w
      | Inr remoteContent \<Rightarrow>
          let localContent = getLocalInstructions env w workspaceFolder source
          in if localContent \<noteq> Some remoteContent
             then
               (if requireConfirmation \<and> \<not> sessionConfirmAll session
                then
                  (if (case confirmBeforeSync w of None \<Rightarrow> True | Some b \<Rightarrow> b)
                   then
                     let action = (if localContent = None then Create else Overwrite);
                         (result, w1) =
                           showWarningMessage
                             (ConfirmPrompt action (file (getDestinationPath (Some source)))
                                (name workspaceFolder) (language source)) w
                     in if result = Some No \<or> result = None
                        then (False, session, w1)
                        else
                          let session1 =
                                (if result = Some YesToAll
                                 then (case session of None \<Rightarrow> None
                                       | Some s \<Rightarrow> Some (s\<lparr>confirmAll := True\<rparr>))
                                 else session);
                              w2 = (if result = Some Always
                                    then w1\<lparr>confirmBeforeSync := Some False\<rparr> else w1)
                          in writeAndReport env workspaceFolder source showNotifications session1
                               remoteContent w2
                   else writeAndReport env workspaceFolder source showNotifications session
                          remoteContent w)
                else writeAndReport env workspaceFolder source showNotifications session
                       remoteContent w)
             else (False, session,
                   notify showNotifications
                     (UpToDateInfo (language source) (name workspaceFolder)) w))"


section \<open>The sync run\<close>

definition languagePatterns :: "(string \<times> string list) list" where
  "languagePatterns =
     [(''AL'', [''**/*.al'', ''app.json'']),
      (''C#'', [''**/*.cs'', ''**/*.csproj'']),
      (''TypeScript'', [''**/*.ts'', ''**/*.tsx'']),
      (''JavaScript'', [''**/*.js'', ''**/*.jsx'']),
      (''Python'', [''**/*.py'']),
      (''Java'', [''**/*.java'']),
      (''Go'', [''**/*.go'']),
      (''Rust'', [''**/*.rs'']),
      (''C++'', [''**/*.cpp'', ''**/*.hpp'', ''**/*.cc'']),
      (''C'', [''**/*.c'', ''**/*.h'']),
      (''Ruby'', [''**/*.rb'']),
      (''PHP'', [''**/*.php'']),
      (''Swift'', [''**/*.swift'']),
      (''Kotlin'', [''**/*.kt'']),
      (''Powershell'', [''**/*.ps1''])]"

definition detectWorkspaceLanguage :: "env \<Rightarrow> WorkspaceFolder \<Rightarrow> string list" where
  \<comment> \<open>A language is detected when the search finds a file for one of its patterns.\<close>
  "detectWorkspaceLanguage env workspaceFolder =
     map fst (filter (\<lambda>(language, patterns).
                        list_ex (\<lambda>pattern. findFiles env (uri workspaceFolder) pattern) patterns)
                languagePatterns)"

text \<open>
  \<open>performSync\<close> drops the result of each \<open>syncInstructions\<close> call; the model keeps the
  calls made, with their results, in a list of their own, so that a property can speak of them.
\<close>

type_synonym syncCall = "WorkspaceFolder \<times> InstructionSource \<times> bool"

fun syncSources ::
  "env \<Rightarrow> WorkspaceFolder \<Rightarrow> string list \<Rightarrow> bool \<Rightarrow> InstructionSource list
     \<Rightarrow> SyncSession option \<times> world \<times> syncCall list
     \<Rightarrow> SyncSession option \<times> world \<times> syncCall list" where
  \<comment> \<open>\<open>for (const source of sources) { ... }\<close>; \<open>if (matchingLanguage)\<close> asks for a
      language found and not the empty string.\<close>
  "syncSources env workspaceFolder detectedLanguages showNotifications [] st = st"
| "syncSources env workspaceFolder detectedLanguages showNotifications (source # rest)
     (session, w, calls) =
     (if enabled source = Some False
      then syncSources env workspaceFolder detectedLanguages showNotifications rest
             (session, w, calls)
      else
        (case find (\<lambda>lang. toLowerCase lang = toLowerCase (language source)) detectedLanguages of
           None \<Rightarrow>
             syncSources env workspaceFolder detectedLanguages showNotifications rest
               (session, w, calls)
         | Some matchingLanguage \<Rightarrow>
             if matchingLanguage \<noteq> []
             then
               (case syncInstructions env workspaceFolder source showNotifications True session w of
                  (r, session', w') \<Rightarrow>
                    syncSources env workspaceFolder detectedLanguages showNotifications rest
                      (session', w', calls @ [(workspaceFolder, source, r)]))
             else syncSources env workspaceFolder detectedLanguages showNotifications rest
                    (session, w, calls)))"

fun syncFolders ::
  "env \<Rightarrow> bool \<Rightarrow> InstructionSource list \<Rightarrow> WorkspaceFolder list
     \<Rightarrow> SyncSession option \<times> world \<times> syncCall list
     \<Rightarrow> SyncSession option \<times> world \<times> syncCall list" where
  \<comment> \<open>\<open>for (const workspaceFolder of workspaceFolders) { ... }\<close>\<close>
  "syncFolders env showNotifications mergedSources [] st = st"
| "syncFolders env showNotifications mergedSources (workspaceFolder # rest) st =
     (let detectedLanguages = detectWorkspaceLanguage env workspaceFolder
      in if length detectedLanguages = 0
         then syncFolders env showNotifications mergedSources rest st
         else syncFolders env showNotifications mergedSources rest
                (syncSources env workspaceFolder detectedLanguages showNotifications mergedSources st))"

definition performSync :: "env \<Rightarrow> bool \<Rightarrow> bool \<Rightarrow> world \<Rightarrow> world \<times> syncCall list" where
  \<comment> \<open>\<open>getInstructionSources(forceRefresh)\<close> merges the local setting with what
      \<open>fetchRemoteConfig(forceRefresh)\<close> returned, which \<open>remoteConfigFetched\<close> stands
      for: the error message and the cache update of that load are in \<open>fetchRemoteConfig\<close>
      below and not in the state of this run.\<close>
  "performSync env showNotifications forceRefresh w =
     (case workspaceFolders env of
        None \<Rightarrow> (notify showNotifications NoWorkspaceWarning w, [])
      | Some folders \<Rightarrow>
          if length folders = 0 then (notify showNotifications NoWorkspaceWarning w, [])
          else
            let sources =
                  getInstructionSources (remoteConfigFetched env forceRefresh) (localSources env)
            in if length sources = 0 then (notify showNotifications NoSourcesInfo w, [])
               else
                 (case syncFolders env showNotifications sources folders
                         (Some \<lparr>confirmAll = False\<rparr>, w, []) of
                    (session, w', calls) \<Rightarrow> (w', calls)))"


section \<open>Loading the remote configuration\<close>

text \<open>
  The parsed document is untyped: \<open>remoteConf.sources\<close> holds the entries of
  \<open>parsed.sources\<close> that pass the filter, as they came. (The merge and the run above take
  the sources at their declared type \<open>InstructionSource\<close>.)
\<close>

record ParsedRemoteConfig =
  parsedSources :: "jsvalue list option"
  parsedSyncOnOpen :: "bool option"
  parsedSyncOnConfigChange :: "bool option"
  parsedConfirmBeforeSync :: "bool option"

record CacheEntry =
  config :: ParsedRemoteConfig
  timestamp :: int

definition keepSource :: "jsvalue \<Rightarrow> bool" where
  \<comment> \<open>The callback of \<open>parsed.sources.filter\<close>. An entry that is not \<open>null\<close> or
      \<open>undefined\<close> has its properties read without error.\<close>
  "keepSource s =
     (if typeof s \<noteq> ''object'' \<or> s = Null then False
      else (case (getProp s ''language'', getProp s ''url'') of
              (Some l, Some u) \<Rightarrow> typeof l = ''string'' \<and> typeof u = ''string''
            | _ \<Rightarrow> False))"

definition booleanField :: "jsvalue \<Rightarrow> bool option" where
  \<comment> \<open>\<open>if (typeof v === 'boolean') { remoteConf.field = v; }\<close>\<close>
  "booleanField v = (case v of Bool b \<Rightarrow> Some b | _ \<Rightarrow> None)"

definition buildRemoteConf :: "jsvalue \<Rightarrow> error + ParsedRemoteConfig" where
  \<comment> \<open>\<open>// Validate the structure\<close>: from \<open>const remoteConf: RemoteConfig = {}\<close> to the last
      of the three boolean checks.\<close>
  "buildRemoteConf parsed =
     (case (getProp parsed ''sources'', getProp parsed ''syncOnOpen'',
            getProp parsed ''syncOnConfigChange'', getProp parsed ''confirmBeforeSync'') of
        (Some srcs, Some a, Some b, Some c) \<Rightarrow>
          Inr \<lparr>parsedSources = (case srcs of Arr entries \<Rightarrow> Some (filter keepSource entries)
                                  | _ \<Rightarrow> None),
               parsedSyncOnOpen = booleanField a,
               parsedSyncOnConfigChange = booleanField b,
               parsedConfirmBeforeSync = booleanField c\<rparr>
      | _ \<Rightarrow> Inl NotAnObject)"

definition cachedConfig :: "bool \<Rightarrow> CacheEntry option \<Rightarrow> int \<Rightarrow> int \<Rightarrow> ParsedRemoteConfig option" where
  \<comment> \<open>\<open>// Check cache\<close>: the cached configuration when it is used, \<open>None\<close> otherwise.\<close>
  "cachedConfig forceRefresh remoteConfigCache cacheDuration now =
     (case remoteConfigCache of
        None \<Rightarrow> None
      | Some entry \<Rightarrow>
          if \<not> forceRefresh \<and> cacheDuration > 0 \<and> now - timestamp entry < cacheDuration
          then Some (config entry) else None)"

definition loadRemoteConf :: "env \<Rightarrow> world \<Rightarrow> string \<Rightarrow> error + ParsedRemoteConfig" where
  \<comment> \<open>The \<open>try\<close> block of \<open>fetchRemoteConfig\<close> up to the cache update.\<close>
  "loadRemoteConf env w remoteConfigUrl =
     (case fetchContent env w remoteConfigUrl of
        Inl e \<Rightarrow> Inl e
      | Inr content \<Rightarrow>
          (case JSON_parse env content of
             None \<Rightarrow> Inl (InvalidJson remoteConfigUrl)
           | Some parsed \<Rightarrow> buildRemoteConf parsed))"

definition fetchRemoteConfig ::
  "env \<Rightarrow> string \<Rightarrow> int \<Rightarrow> int \<Rightarrow> bool \<Rightarrow> CacheEntry option \<times> world
     \<Rightarrow> ParsedRemoteConfig option \<times> CacheEntry option \<times> world" where
  \<comment> \<open>\<open>remoteConfigUrl\<close> and \<open>cacheSeconds\<close> are the settings \<open>remoteConfigUrl\<close> and
      \<open>remoteConfigCacheDuration\<close>, \<open>now\<close> is \<open>Date.now()\<close>, the module variable
      \<open>remoteConfigCache\<close> is passed in and returned.\<close>
  "fetchRemoteConfig env remoteConfigUrl cacheSeconds now forceRefresh st =
     (case st of (remoteConfigCache, w) \<Rightarrow>
        if remoteConfigUrl = [] then (None, remoteConfigCache, w)
        else
          let cacheDuration = cacheSeconds * 1000
          in (case cachedConfig forceRefresh remoteConfigCache cacheDuration now of
                Some c \<Rightarrow> (Some c, remoteConfigCache, w)
              | None \<Rightarrow>
                  (case loadRemoteConf env w remoteConfigUrl of
                     Inr remoteConf \<Rightarrow>
                       (Some remoteConf, Some \<lparr>config = remoteConf, timestamp = now\<rparr>, w)
                   | Inl e \<Rightarrow>
                       (map_option config remoteConfigCache, remoteConfigCache,
                        w\<lparr>shown := shown w @ [RemoteConfigError e]\<rparr>))))"


section \<open>The earlier revision of the run\<close>

text \<open>
  \<^verbatim>\<open>src/extension.ts\<close> holds an earlier revision of \<open>performSync\<close>, from before
  destinations, the merge and the session: its loop over the sources ends with
  \<^verbatim>\<open>// Only sync the first matching source per workspace folder\<close> and \<open>break\<close>. The
  revision's own \<open>syncInstructions\<close> is the argument \<open>sync\<close>.
\<close>

fun syncSourcesFirstMatch ::
  "(WorkspaceFolder \<Rightarrow> InstructionSource \<Rightarrow> 'st \<Rightarrow> bool \<times> 'st) \<Rightarrow> WorkspaceFolder
     \<Rightarrow> string list \<Rightarrow> InstructionSource list \<Rightarrow> 'st \<times> syncCall list
     \<Rightarrow> 'st \<times> syncCall list" where
  "syncSourcesFirstMatch sync workspaceFolder detectedLanguages [] st = st"
| "syncSourcesFirstMatch sync workspaceFolder detectedLanguages (source # rest) (st, calls) =
     (if enabled source = Some False
      then syncSourcesFirstMatch sync workspaceFolder detectedLanguages rest (st, calls)
      else
        (case find (\<lambda>lang. toLowerCase lang = toLowerCase (language source)) detectedLanguages of
           None \<Rightarrow> syncSourcesFirstMatch sync workspaceFolder detectedLanguages rest (st, calls)
         | Some matchingLanguage \<Rightarrow>
             if matchingLanguage \<noteq> []
             then (case sync workspaceFolder source st of
                     (r, st') \<Rightarrow> (st', calls @ [(workspaceFolder, source, r)]))
             else syncSourcesFirstMatch sync workspaceFolder detectedLanguages rest (st, calls)))"


section \<open>Auxiliary notions and example inputs\<close>

definition keyed :: "InstructionSource jsMap \<Rightarrow> bool" where
  \<comment> \<open>Every entry of the map sits under the key of its value.\<close>
  "keyed m = list_all (\<lambda>e. fst e = sourceKey (snd e)) m"

text \<open>
  \<open>field kvs key\<close> is the member \<open>key\<close> of a parsed object, \<open>undefined\<close> when it has
  none. \<open>ownToString\<close> tells the values whose conversion to a string throws.
  \<open>wellTypedSource\<close>: an object that has the types the interface
  \<open>InstructionSource\<close> declares, in all five fields.
\<close>

definition field :: "(string \<times> jsvalue) list \<Rightarrow> string \<Rightarrow> jsvalue" where
  "field kvs key = (case map_of kvs key of None \<Rightarrow> Undefined | Some v \<Rightarrow> v)"



definition optionalOf :: "string \<Rightarrow> jsvalue \<Rightarrow> bool" where
  "optionalOf t v = (v = Undefined \<or> typeof v = t)"

definition wellTypedSource :: "jsvalue \<Rightarrow> bool" where
  "wellTypedSource v =
     (case v of
        Obj kvs \<Rightarrow>
          typeof (field kvs ''language'') = ''string'' \<and> typeof (field kvs ''url'') = ''string''
          \<and> optionalOf ''boolean'' (field kvs ''enabled'')
          \<and> optionalOf ''string'' (field kvs ''destinationFolder'')
          \<and> optionalOf ''string'' (field kvs ''destinationFile'')
      | _ \<Rightarrow> False)"

text \<open>
  \<open>parseExample\<close> is \<open>JSON.parse\<close> on the documents used below (and a syntax error on
  every other string); \<open>configText\<close> is a remote configuration with one entry whose optional
  fields have the wrong types, one whose \<open>language\<close> is a number, a \<open>null\<close> and a string.
\<close>

definition looseEntry :: jsvalue where
  \<comment> \<open>A remote entry with a string for \<open>enabled\<close> and a number for \<open>destinationFolder\<close>.\<close>
  "looseEntry =
     Obj [(''language'', Str ''C#''), (''url'', Str ''https://example.com/a.md''),
          (''enabled'', Str ''no''), (''destinationFolder'', Num ''42'')]"

definition configText :: string where
  \<open>configText = ''{"sources":[{"language":"C#","url":"https://example.com/a.md","enabled":"no","destinationFolder":42},{"language":7,"url":"x"},null,"text"],"syncOnOpen":true}''\<close>

definition configDocument :: jsvalue where
  "configDocument =
     Obj [(''sources'', Arr [looseEntry, Obj [(''language'', Num ''7''), (''url'', Str ''x'')],
                             Null, Str ''text'']),
          (''syncOnOpen'', Bool True)]"

definition parseExample :: "string \<Rightarrow> jsvalue option" where
  \<open>parseExample s =
     (if s = ''{"message":""}'' then Some (Obj [(''message'', Str '''')])
      else if s = ''{"message":"Not Found"}'' then Some (Obj [(''message'', Str ''Not Found'')])
      else if s = ''{"error":"Bad credentials"}'' then Some (Obj [(''error'', Str ''Bad credentials'')])
      else if s = ''{"errors":[1]}'' then Some (Obj [(''errors'', Arr [Num ''1''])])
      else if s = ''{"message":{"toString":1}}''
      then Some (Obj [(''message'', Obj [(''toString'', Num ''1'')])])
      else if s = ''{"message":18446744073709551616}''
      then Some (Obj [(''message'', Num ''18446744073709552000'')])
      else if s = ''{"key":"value"}'' then Some (Obj [(''key'', Str ''value'')])
      else if s = configText then Some configDocument
      else None)\<close>

text \<open>The two sources of the test \<open>sources with same language and same destination are
  deduplicated by composite key\<close>.\<close>

definition oldSource :: InstructionSource where
  "oldSource = \<lparr>language = ''C#'', url = ''https://example.com/old.md'', enabled = None,
                destinationFolder = None, destinationFile = Some ''copilot-instructions.md''\<rparr>"

definition newSource :: InstructionSource where
  "newSource = \<lparr>language = ''C#'', url = ''https://example.com/new.md'', enabled = None,
                destinationFolder = None, destinationFile = Some ''copilot-instructions.md''\<rparr>"


text \<open>
  \<open>nextAnswer\<close> is what the user answers to the next prompt; \<open>prompts\<close> are the
  confirmation prompts among the messages shown; \<open>destinationUri\<close> is where a source is
  written in a workspace folder; \<open>matches\<close> is the orchestrator's condition on a source,
  for the languages detected in a root.
\<close>

definition nextAnswer :: "world \<Rightarrow> choice option" where
  "nextAnswer w = (case answers w of [] \<Rightarrow> None | a # rest \<Rightarrow> a)"

fun isConfirmPrompt :: "message \<Rightarrow> bool" where
  "isConfirmPrompt (ConfirmPrompt a f n l) = True"
| "isConfirmPrompt m = False"

definition prompts :: "world \<Rightarrow> message list" where
  "prompts w = filter isConfirmPrompt (shown w)"

definition asked :: "world \<Rightarrow> world \<Rightarrow> nat" where
  \<comment> \<open>How many confirmation prompts were shown between two states.\<close>
  "asked w w' = length (prompts w') - length (prompts w)"

definition answeredUpTo ::
  "SyncSession option \<Rightarrow> world \<Rightarrow> SyncSession option \<Rightarrow> world \<Rightarrow> bool" where
  \<comment> \<open>From a session and state to a later session and state of the same run: \<open>n\<close> prompts
      were shown and took the next \<open>n\<close> answers. A session that had \<open>confirmAll\<close> keeps
      it and nothing was asked. One that had not either has it now, and then no answer before
      the last one taken was Yes to All, or still has not, and then no answer taken was.\<close>
  "answeredUpTo session w session' w' =
     (\<exists>n. length (prompts w') = length (prompts w) + n
          \<and> answers w' = drop n (answers w)
          \<and> (session' = None \<longleftrightarrow> session = None)
          \<and> (if sessionConfirmAll session then n = 0 \<and> sessionConfirmAll session'
              else if sessionConfirmAll session'
                   then 0 < n \<and> Some YesToAll \<notin> set (take (n - 1) (answers w))
                   else Some YesToAll \<notin> set (take n (answers w))))"

definition destinationUri :: "env \<Rightarrow> WorkspaceFolder \<Rightarrow> InstructionSource \<Rightarrow> uri" where
  "destinationUri env workspaceFolder source =
     joinPath env (uri workspaceFolder) (fullPath (getDestinationPath (Some source)))"

definition matches :: "string list \<Rightarrow> InstructionSource \<Rightarrow> bool" where
  "matches detectedLanguages source =
     (enabled source \<noteq> Some False
      \<and> (\<exists>lang \<in> set detectedLanguages. toLowerCase lang = toLowerCase (language source)))"


text \<open>The parts of what \<open>syncInstructions\<close> returns, and of what the iteration over sources and roots returns.\<close>

definition outcome :: "bool \<times> SyncSession option \<times> world \<Rightarrow> bool" where
  "outcome r = fst r"

definition sessionAfter :: "bool \<times> SyncSession option \<times> world \<Rightarrow> SyncSession option" where
  "sessionAfter r = fst (snd r)"

definition worldAfter :: "bool \<times> SyncSession option \<times> world \<Rightarrow> world" where
  "worldAfter r = snd (snd r)"

definition sessionAfterRun ::
  "SyncSession option \<times> world \<times> syncCall list \<Rightarrow> SyncSession option" where
  "sessionAfterRun r = fst r"

definition worldAfterRun :: "SyncSession option \<times> world \<times> syncCall list \<Rightarrow> world" where
  "worldAfterRun r = fst (snd r)"


definition syncedPairs :: "syncCall list \<Rightarrow> (WorkspaceFolder \<times> InstructionSource) list" where
  \<comment> \<open>The root and the source of each \<open>syncInstructions\<close> call, in the order of the calls.\<close>
  "syncedPairs calls = map (\<lambda>c. (fst c, fst (snd c))) calls"


definition confirmPrompt :: "env \<Rightarrow> world \<Rightarrow> WorkspaceFolder \<Rightarrow> InstructionSource \<Rightarrow> message" where
  \<comment> \<open>The prompt \<open>syncInstructions\<close> shows for a source.\<close>
  "confirmPrompt env w workspaceFolder source =
     ConfirmPrompt
       (if getLocalInstructions env w workspaceFolder source = None then Create else Overwrite)
       (file (getDestinationPath (Some source))) (name workspaceFolder) (language source)"

text \<open>
  A workspace \<open>app\<close> with C# files, four local sources (two for C# with different
  destinations, the second spelt \<open>c#\<close>; one for TypeScript; one for C# that is disabled), no
  remote configuration, and a shared local file that holds an HTML error page.
\<close>

definition csGeneral :: InstructionSource where
  "csGeneral = \<lparr>language = ''C#'', url = ''https://example.com/general.md'', enabled = None,
                 destinationFolder = None, destinationFile = None\<rparr>"

definition csTesting :: InstructionSource where
  "csTesting = \<lparr>language = ''c#'', url = ''https://example.com/testing.md'', enabled = Some True,
                 destinationFolder = None, destinationFile = Some ''copilot-testing.md''\<rparr>"

definition tsSource :: InstructionSource where
  "tsSource = \<lparr>language = ''TypeScript'', url = ''https://example.com/ts.md'', enabled = None,
                destinationFolder = None, destinationFile = Some ''ts.md''\<rparr>"

definition csDisabled :: InstructionSource where
  "csDisabled = \<lparr>language = ''C#'', url = ''https://example.com/off.md'', enabled = Some False,
                  destinationFolder = Some ''.vscode'', destinationFile = None\<rparr>"

definition localSource :: InstructionSource where
  "localSource = \<lparr>language = ''C#'', url = ''/shared/instructions.md'', enabled = None,
                   destinationFolder = None, destinationFile = Some ''shared.md''\<rparr>"

definition appFolder :: WorkspaceFolder where
  "appFolder = \<lparr>uri = ''file:///work/app'', name = ''app''\<rparr>"

definition errorPage :: string where
  "errorPage = ''<!DOCTYPE html><html><head><title>404 Not Found</title></head></html>''"

definition exampleEnv :: env where
  "exampleEnv =
     \<lparr>uriParse = (\<lambda>s. s),
      uriFile = (\<lambda>s. ''file://'' @ s),
      joinPath = (\<lambda>u p. u @ ''/'' @ p),
      fetch = (\<lambda>u. if u = ''https://example.com/general.md''
                     then Some \<lparr>ok = True, status = 200, statusText = ''OK'', body = ''# General''\<rparr>
                     else if u = ''https://example.com/testing.md''
                     then Some \<lparr>ok = True, status = 200, statusText = ''OK'', body = ''# Testing''\<rparr>
                     else if u = ''https://example.com/error.md''
                     then Some \<lparr>ok = True, status = 200, statusText = ''OK'', body = errorPage\<rparr>
                     else if u = ''https://example.com/config.json''
                     then Some \<lparr>ok = True, status = 200, statusText = ''OK'', body = configText\<rparr>
                     else None),
      JSON_parse = parseExample,
      findFiles = (\<lambda>root pattern. root = ''file:///work/app'' \<and> pattern = ''**/*.cs''),
      writeFails = (\<lambda>u. False),
      workspaceFolders = Some [appFolder],
      localSources = [csGeneral, csTesting, tsSource, csDisabled],
      remoteConfigFetched = (\<lambda>forceRefresh. None)\<rparr>"

definition twoAnswers :: world where
  \<comment> \<open>The user answers Yes to All to the first prompt and would answer No to a second.\<close>
  "twoAnswers =
     \<lparr>files = Map.empty, confirmBeforeSync = None, answers = [Some YesToAll, Some No],
      shown = []\<rparr>"

definition exampleWorld :: world where
  "exampleWorld =
     \<lparr>files = [''file:///shared/instructions.md'' \<mapsto> errorPage],
      confirmBeforeSync = None,
      answers = [Some YesToAll],
      shown = []\<rparr>"


section \<open>The destination resolver\<close>

text \<open>
  C10. \<open>getDestinationPath\<close> takes the defaults \<open>.github\<close> and \<open>copilot-instructions.md\<close>
  only for an absent folder or file, not for the empty string: a source with
  \<open>destinationFolder = ""\<close> (and no file) gets folder \<open>""\<close> and full path
  \<open>/copilot-instructions.md\<close>, and one with \<open>destinationFile = ""\<close> gets a full path that
  ends in \<open>/\<close>.
\<close>

theorem getDestinationPath_defaults_only_when_absent:
  "folder (getDestinationPath (Some s)) =
     (case destinationFolder s of None \<Rightarrow> ''.github'' | Some d \<Rightarrow> d)
   \<and> file (getDestinationPath (Some s)) =
     (case destinationFile s of None \<Rightarrow> ''copilot-instructions.md'' | Some f \<Rightarrow> f)
   \<and> fullPath (getDestinationPath (Some s)) =
     folder (getDestinationPath (Some s)) @ ''/'' @ file (getDestinationPath (Some s))
   \<and> (destinationFolder s = Some '''' \<and> destinationFile s = None \<longrightarrow>
        folder (getDestinationPath (Some s)) = ''''
        \<and> fullPath (getDestinationPath (Some s)) = ''/copilot-instructions.md'')
   \<and> (destinationFile s = Some '''' \<longrightarrow>
        file (getDestinationPath (Some s)) = ''''
        \<and> last (fullPath (getDestinationPath (Some s))) = CHR ''/'')"
  by (simp add: getDestinationPath_def Let_def split: option.split)

theorem getDestinationPath_defaults_only_when_absent_witness:
  "folder (getDestinationPath (Some \<lparr>language = ''C#'', url = ''https://example.com/a.md'',
       enabled = None, destinationFolder = Some '''', destinationFile = None\<rparr>)) = ''''
   \<and> fullPath (getDestinationPath (Some \<lparr>language = ''C#'', url = ''https://example.com/a.md'',
       enabled = None, destinationFolder = Some '''', destinationFile = None\<rparr>))
       = ''/copilot-instructions.md''
   \<and> fullPath (getDestinationPath (Some \<lparr>language = ''C#'', url = ''https://example.com/a.md'',
       enabled = None, destinationFolder = None, destinationFile = Some ''''\<rparr>)) = ''.github/''"
  using getDestinationPath_defaults_only_when_absent
          [of "\<lparr>language = ''C#'', url = ''https://example.com/a.md'',
                enabled = None, destinationFolder = Some '''', destinationFile = None\<rparr>"]
        getDestinationPath_defaults_only_when_absent
          [of "\<lparr>language = ''C#'', url = ''https://example.com/a.md'',
                enabled = None, destinationFolder = None, destinationFile = Some ''''\<rparr>"]
  by simp


section \<open>The merge\<close>

lemma sourceKey_spec: "sourceKey s = spec_identityKey s"
  by (simp add: sourceKey_def spec_identityKey_def getDestinationPath_def Let_def split: option.split)

lemma keyed_Map_set: "keyed m \<Longrightarrow> keyed (Map_set (sourceKey s) s m)"
  by (induction m) (auto simp: keyed_def)

lemma keyed_setAll: "keyed m \<Longrightarrow> keyed (setAll xs m)"
  by (induction xs arbitrary: m) (auto simp: keyed_Map_set)

lemma values_Map_set:
  "keyed m \<Longrightarrow> map snd (Map_set (sourceKey s) s m) = spec_insert s (map snd m)"
  by (induction m) (auto simp: keyed_def sourceKey_spec)

lemma values_setAll:
  "keyed m \<Longrightarrow> map snd (setAll xs m) = fold spec_insert xs (map snd m)"
proof (induction xs arbitrary: m)
  case Nil
  then show ?case by simp
next
  case (Cons x xs)
  from Cons.prems have "keyed (Map_set (sourceKey x) x m)" by (rule keyed_Map_set)
  from Cons.IH[OF this] show ?case by (simp add: values_Map_set[OF Cons.prems])
qed

lemma general_merge_is_spec_merge:
  "Map_values (setAll L (setAll R [])) = spec_merge R L"
proof -
  have k0: "keyed (setAll R [])" by (rule keyed_setAll) (simp add: keyed_def)
  have "map snd (setAll R []) = fold spec_insert R []"
    using values_setAll[of "[]" R] by (simp add: keyed_def)
  then show ?thesis
    by (simp add: Map_values_def spec_merge_def values_setAll[OF k0])
qed

lemma keys_Map_set:
  "map fst (Map_set k v m) = (if k \<in> set (map fst m) then map fst m else map fst m @ [k])"
  by (induction m) auto

lemma distinct_Map_set: "distinct (map fst m) \<Longrightarrow> distinct (map fst (Map_set k v m))"
  by (simp add: keys_Map_set)

lemma distinct_setAll: "distinct (map fst m) \<Longrightarrow> distinct (map fst (setAll xs m))"
  by (induction xs arbitrary: m) (auto simp: distinct_Map_set)

lemma keyed_keys: "keyed m \<Longrightarrow> map sourceKey (map snd m) = map fst m"
  by (induction m) (auto simp: keyed_def)

lemma general_merge_distinct:
  "distinct (map sourceKey (Map_values (setAll L (setAll R []))))"
proof -
  have k: "keyed (setAll L (setAll R []))"
    by (intro keyed_setAll) (simp add: keyed_def)
  have d: "distinct (map fst (setAll L (setAll R [])))"
    by (intro distinct_setAll) simp
  show ?thesis unfolding Map_values_def keyed_keys[OF k] by (rule d)
qed



lemma spec_merge_distinct: "distinct (map sourceKey (spec_merge R L))"
  using general_merge_distinct[of L R] by (simp add: general_merge_is_spec_merge)

lemma map_of_Map_set: "map_of (Map_set k v m) = (map_of m)(k \<mapsto> v)"
  by (induction m) (auto simp: fun_eq_iff)

lemma map_of_setAll:
  "map_of (setAll xs m) = map_of m ++ map_of (rev (map (\<lambda>s. (sourceKey s, s)) xs))"
proof (induction xs arbitrary: m)
  case Nil
  then show ?case by simp
next
  case (Cons x xs)
  show ?case
    by (simp add: Cons.IH map_of_Map_set fun_eq_iff map_add_def split: option.split)
qed



lemma getInstructionSources_general:
  "remoteSourcesOf rc \<noteq> [] \<Longrightarrow> L \<noteq> [] \<Longrightarrow>
   getInstructionSources rc L = spec_merge (remoteSourcesOf rc) L"
  by (auto simp: getInstructionSources_def remoteSourcesOf_def general_merge_is_spec_merge
           split: option.splits)


lemma sourceKey_oldSource: "sourceKey oldSource = ''c#::.github/copilot-instructions.md''"
  by (simp add: oldSource_def sourceKey_def getDestinationPath_def toLowerCase_def
                lowerChar_def isUpper_def Let_def)

lemma sourceKey_newSource: "sourceKey newSource = ''c#::.github/copilot-instructions.md''"
  by (simp add: newSource_def sourceKey_def getDestinationPath_def toLowerCase_def
                lowerChar_def isUpper_def Let_def)

text \<open>
  When both lists are non-empty the merged list has pairwise distinct keys, and the entry
  under a key that a local source has is the last local source with that key.
\<close>

lemma merged_keys_distinct:
  "remoteSourcesOf rc \<noteq> [] \<Longrightarrow> L \<noteq> [] \<Longrightarrow>
   distinct (map sourceKey (getInstructionSources rc L))"
  by (simp add: getInstructionSources_general spec_merge_distinct)

lemma keyed_map_of:
  assumes "keyed m" and "distinct (map fst m)" and "s \<in> set (map snd m)"
  shows "map_of m (sourceKey s) = Some s"
proof -
  from assms(3) obtain k where "(k, s) \<in> set m" by auto
  moreover from this assms(1) have "k = sourceKey s"
    by (auto simp: keyed_def list_all_iff)
  ultimately show ?thesis using assms(2) by simp
qed

lemma merged_local_wins:
  assumes "remoteSourcesOf rc \<noteq> []" and "L \<noteq> []"
      and "s \<in> set (getInstructionSources rc L)"
      and "sourceKey s \<in> sourceKey ` set L"
  shows "map_of (rev (map (\<lambda>x. (sourceKey x, x)) L)) (sourceKey s) = Some s"
proof -
  let ?m = "setAll L (setAll (remoteSourcesOf rc) [])"
  have g: "getInstructionSources rc L = map snd ?m"
    using assms(1,2)
    by (auto simp: getInstructionSources_def remoteSourcesOf_def Map_values_def
             split: option.splits)
  have k: "keyed ?m" by (intro keyed_setAll) (simp add: keyed_def)
  have d: "distinct (map fst ?m)" by (intro distinct_setAll) simp
  have "map_of ?m (sourceKey s) = Some s"
    using keyed_map_of[OF k d] assms(3) g by simp
  moreover have "map_of (rev (map (\<lambda>x. (sourceKey x, x)) L)) (sourceKey s) \<noteq> None"
  proof -
    have "sourceKey s \<in> fst ` set (rev (map (\<lambda>x. (sourceKey x, x)) L))"
      using assms(4) by force
    then show ?thesis by (simp add: map_of_eq_None_iff)
  qed
  ultimately show ?thesis
    by (auto simp: map_of_setAll map_add_def split: option.splits)
qed




text \<open>
  C3. The merged list is to have no two entries with one identity key. The code at the
  failing input: no remote configuration (or no local source) and a list with the two sources
  above; \<open>getInstructionSources\<close> returns the list as it is, with the key twice.
\<close>

theorem short_circuit_keeps_duplicate_keys:
  "getInstructionSources None [oldSource, newSource] = [oldSource, newSource]
   \<and> sourceKey oldSource = sourceKey newSource
   \<and> \<not> distinct (map sourceKey (getInstructionSources None [oldSource, newSource]))
   \<and> \<not> distinct (map sourceKey (getInstructionSources
          (Some \<lparr>sources = Some [oldSource, newSource], syncOnOpen = None,
                 syncOnConfigChange = None, confirmBeforeSyncRemote = None\<rparr>) []))"
  by (simp add: getInstructionSources_def sourceKey_oldSource sourceKey_newSource)


section \<open>The content validator\<close>

lemma lowerChar_add32: "isUpper c \<Longrightarrow> of_char (lowerChar c) = (of_char c + 32 :: nat)"
  by (cases c) (simp add: lowerChar_def isUpper_def Let_def of_bool_def split: if_splits)

lemma isWhiteSpace_lowerChar: "isWhiteSpace (lowerChar c) = isWhiteSpace c"
proof (cases "isUpper c")
  case True
  then have "of_char (lowerChar c) = (of_char c + 32 :: nat)" by (rule lowerChar_add32)
  with True show ?thesis by (auto simp: isWhiteSpace_def isUpper_def Let_def)
next
  case False
  then show ?thesis by (simp add: lowerChar_def)
qed

lemma trim_toLowerCase: "trim (toLowerCase s) = toLowerCase (trim s)"
proof -
  have "isWhiteSpace \<circ> lowerChar = isWhiteSpace"
    by (simp add: fun_eq_iff isWhiteSpace_lowerChar)
  then show ?thesis
    by (simp add: trim_def toLowerCase_def dropWhile_map rev_map)
qed

lemma startsWith_append: "startsWith s p \<longleftrightarrow> (\<exists>r. s = p @ r)"
  by (induction s p rule: startsWith.induct) auto

lemma includesStr_iff: "includesStr s t \<longleftrightarrow> (\<exists>pre post. s = pre @ t @ post)"
proof (induction s)
  case Nil
  then show ?case by auto
next
  case (Cons c cs)
  show ?case
  proof
    assume "includesStr (c # cs) t"
    then consider "startsWith (c # cs) t" | "includesStr cs t" by auto
    then show "\<exists>pre post. c # cs = pre @ t @ post"
    proof cases
      case 1
      then obtain r where "c # cs = t @ r" by (auto simp: startsWith_append)
      then have "c # cs = [] @ t @ r" by simp
      then show ?thesis by blast
    next
      case 2
      then obtain pre post where "cs = pre @ t @ post" using Cons.IH by auto
      then have "c # cs = (c # pre) @ t @ post" by simp
      then show ?thesis by blast
    qed
  next
    assume "\<exists>pre post. c # cs = pre @ t @ post"
    then obtain pre post where e: "c # cs = pre @ t @ post" by auto
    show "includesStr (c # cs) t"
    proof (cases pre)
      case Nil
      with e have "startsWith (c # cs) t" by (auto simp: startsWith_append)
      then show ?thesis by simp
    next
      case (Cons a pre')
      with e have "cs = pre' @ t @ post" by simp
      then have "includesStr cs t" using Cons.IH by blast
      then show ?thesis by simp
    qed
  qed
qed

lemma trim_inside: "\<exists>pre post. s = pre @ trim s @ post"
proof -
  have 1: "s = takeWhile isWhiteSpace s @ dropWhile isWhiteSpace s" by simp
  let ?d = "dropWhile isWhiteSpace s"
  have "rev ?d = takeWhile isWhiteSpace (rev ?d) @ dropWhile isWhiteSpace (rev ?d)" by simp
  then have "?d = rev (dropWhile isWhiteSpace (rev ?d)) @ rev (takeWhile isWhiteSpace (rev ?d))"
    by (metis rev_append rev_rev_ident)
  then have "?d = trim s @ rev (takeWhile isWhiteSpace (rev ?d))" by (simp add: trim_def)
  with 1 have "s = takeWhile isWhiteSpace s @ trim s @ rev (takeWhile isWhiteSpace (rev ?d))"
    by simp
  then show ?thesis by blast
qed

lemma startsWith_trim_includes: "startsWith (trim s) p \<Longrightarrow> includesStr s p"
proof -
  assume "startsWith (trim s) p"
  then obtain r where r: "trim s = p @ r" by (auto simp: startsWith_append)
  obtain pre post where "s = pre @ trim s @ post" using trim_inside by blast
  with r have "s = pre @ p @ (r @ post)" by simp
  then show ?thesis unfolding includesStr_iff by blast
qed

lemma trim_lower_nonempty:
  assumes "trim (toLowerCase content) \<noteq> []"
  shows "trim content \<noteq> []" and "content \<noteq> []"
proof -
  from assms have "toLowerCase (trim content) \<noteq> []" by (simp add: trim_toLowerCase)
  then show "trim content \<noteq> []" by (simp add: toLowerCase_def)
  then show "content \<noteq> []" by (auto simp: trim_def)
qed

lemma html_prefix_reason:
  assumes "startsWith (trim (toLowerCase content)) ''<html''"
  shows "isValidInstructionContent parse content source =
     \<lparr>valid = False, reason = Some ''Received HTML error page instead of instructions content''\<rparr>"
proof -
  from assms have inc: "includesStr (toLowerCase content) ''<html''"
    by (rule startsWith_trim_includes)
  from assms have "trim (toLowerCase content) \<noteq> []" by auto
  then have ne: "trim content \<noteq> []" "content \<noteq> []"
    by (rule trim_lower_nonempty)+
  have "list_ex (includesStr (toLowerCase content)) htmlErrorIndicators"
    using inc by (simp add: htmlErrorIndicators_def)
  with assms ne show ?thesis
    by (simp add: isValidInstructionContent_def Let_def)
qed

lemma html_always_invalid:
  assumes "startsWith (trim (toLowerCase content)) ''<!doctype''
           \<or> startsWith (trim (toLowerCase content)) ''<html''"
  shows "\<not> valid (isValidInstructionContent parse content source)"
proof -
  from assms have "trim (toLowerCase content) \<noteq> []" by auto
  then have ne: "trim content \<noteq> []" "content \<noteq> []"
    by (rule trim_lower_nonempty)+
  with assms show ?thesis
    by (auto simp: isValidInstructionContent_def Let_def)
qed

text \<open>
  C5. Content that starts with \<open><html\<close> and holds none of the error markers (a 404, 401,
  403 or 500 title, "page not found", "access denied", "unauthorized", "sign in to", "login
  required") is to be rejected as HTML content, not as an HTML error page. The code at
  \<open><html><body>Hi</body></html>\<close>: the list \<open>htmlErrorIndicators\<close> also holds \<open><html\<close>,
  \<open><!doctype html\<close> and \<open><head>\<close>, so the page is reported as an error page.
\<close>

theorem plain_html_page_gets_error_page_reason:
  "isValidInstructionContent parse ''<html><body>Hi</body></html>'' source =
     \<lparr>valid = False, reason = Some ''Received HTML error page instead of instructions content''\<rparr>"
  by (simp add: isValidInstructionContent_def trim_def isWhiteSpace_def toLowerCase_def
        lowerChar_def isUpper_def htmlErrorIndicators_def Let_def)










section \<open>Fetching: which content is validated\<close>

text \<open>
  C9. For a source that \<open>isLocalPath\<close> takes for a local path, \<open>fetchContent\<close> returns the
  content of the file as it is read (or fails when the file cannot be read) and never applies
  \<open>isValidInstructionContent\<close>: an empty local file, or one that holds an HTML error page,
  is returned as it is. Validation runs on the remote branch only: there, a response that is
  \<open>ok\<close> and whose body is not valid makes \<open>fetchContent\<close> fail.
\<close>

theorem local_source_not_validated:
  "(isLocalPath source \<longrightarrow>
      fetchContent env w source =
        (case files w (localPathToUri env source) of
           None \<Rightarrow> Inl (LocalReadFailed source)
         | Some content \<Rightarrow> Inr content))
   \<and> (\<not> isLocalPath source \<and> fetch env source = Some response \<and> ok response
        \<and> \<not> valid (isValidInstructionContent (JSON_parse env) (body response) source) \<longrightarrow>
      fetchContent env w source =
        Inl (InvalidContent source
               (reason (isValidInstructionContent (JSON_parse env) (body response) source))))"
  by (simp add: fetchContent_def Let_def)

lemma isLocalPath_shared: "isLocalPath ''/shared/instructions.md''"
  by (simp add: isLocalPath_def)

lemma errorPage_invalid:
  "isValidInstructionContent parseExample errorPage source =
     \<lparr>valid = False, reason = Some ''Received HTML error page instead of instructions content''\<rparr>"
  by (simp add: errorPage_def isValidInstructionContent_def trim_def isWhiteSpace_def
        toLowerCase_def lowerChar_def isUpper_def htmlErrorIndicators_def Let_def)

theorem local_source_not_validated_witness:
  "isLocalPath ''/shared/instructions.md''
   \<and> \<not> valid (isValidInstructionContent (JSON_parse exampleEnv) errorPage ''/shared/instructions.md'')
   \<and> fetchContent exampleEnv exampleWorld ''/shared/instructions.md'' = Inr errorPage
   \<and> \<not> valid (isValidInstructionContent (JSON_parse exampleEnv) [] ''/shared/instructions.md'')
   \<and> fetchContent exampleEnv (exampleWorld\<lparr>files := [''file:///shared/instructions.md'' \<mapsto> []]\<rparr>)
         ''/shared/instructions.md'' = Inr []
   \<and> \<not> isLocalPath ''https://example.com/error.md''
   \<and> fetchContent exampleEnv exampleWorld ''https://example.com/error.md''
       = Inl (InvalidContent ''https://example.com/error.md''
                (Some ''Received HTML error page instead of instructions content''))"
proof -
  let ?w0 = "exampleWorld\<lparr>files := [''file:///shared/instructions.md'' \<mapsto> []]\<rparr>"
  have u: "localPathToUri exampleEnv ''/shared/instructions.md'' = ''file:///shared/instructions.md''"
    by (simp add: localPathToUri_def exampleEnv_def)
  have p: "JSON_parse exampleEnv = parseExample" by (simp add: exampleEnv_def)
  have a: "fetchContent exampleEnv exampleWorld ''/shared/instructions.md'' = Inr errorPage"
    using local_source_not_validated [of "''/shared/instructions.md''" exampleEnv exampleWorld]
          isLocalPath_shared
    by (simp add: u exampleWorld_def)
  have b: "fetchContent exampleEnv ?w0 ''/shared/instructions.md'' = Inr []"
    using local_source_not_validated [of "''/shared/instructions.md''" exampleEnv ?w0]
          isLocalPath_shared
    by (simp add: u)
  have c: "\<not> valid (isValidInstructionContent (JSON_parse exampleEnv) [] ''/shared/instructions.md'')"
    by (simp add: isValidInstructionContent_def)
  have d: "\<not> valid (isValidInstructionContent (JSON_parse exampleEnv) errorPage src)" for src
    by (simp add: p errorPage_invalid)
  have n: "\<not> isLocalPath ''https://example.com/error.md''"
    by (simp add: isLocalPath_def)
  have f: "fetch exampleEnv ''https://example.com/error.md''
             = Some \<lparr>ok = True, status = 200, statusText = ''OK'', body = errorPage\<rparr>"
    by (simp add: exampleEnv_def)
  have e: "fetchContent exampleEnv exampleWorld ''https://example.com/error.md''
             = Inl (InvalidContent ''https://example.com/error.md''
                      (Some ''Received HTML error page instead of instructions content''))"
    using local_source_not_validated
            [of "''https://example.com/error.md''" exampleEnv exampleWorld
                "\<lparr>ok = True, status = 200, statusText = ''OK'', body = errorPage\<rparr>"]
          n f d
    by (simp add: p errorPage_invalid)
  from a b c d e n isLocalPath_shared show ?thesis by blast
qed


section \<open>The confirmation session\<close>

lemma showWarningMessage_nextAnswer:
  "fst (showWarningMessage m w) = nextAnswer w"
  "files (snd (showWarningMessage m w)) = files w"
  "confirmBeforeSync (snd (showWarningMessage m w)) = confirmBeforeSync w"
  "shown (snd (showWarningMessage m w)) = shown w @ [m]"
  by (simp_all add: showWarningMessage_def nextAnswer_def split: list.split)

lemma syncInstructions_prompted:
  assumes "fetchContent env w (url source) = Inr remoteContent"
      and "getLocalInstructions env w workspaceFolder source \<noteq> Some remoteContent"
      and "requireConfirmation" and "\<not> sessionConfirmAll session"
      and "confirmBeforeSync w \<noteq> Some False"
  shows "syncInstructions env workspaceFolder source showNotifications requireConfirmation session w =
           (let result = nextAnswer w;
                w1 = snd (showWarningMessage (confirmPrompt env w workspaceFolder source) w)
            in if result = Some No \<or> result = None then (False, session, w1)
               else writeAndReport env workspaceFolder source showNotifications
                      (if result = Some YesToAll
                       then (case session of None \<Rightarrow> None
                             | Some s \<Rightarrow> Some (s\<lparr>confirmAll := True\<rparr>))
                       else session)
                      remoteContent
                      (if result = Some Always then w1\<lparr>confirmBeforeSync := Some False\<rparr> else w1))"
proof -
  from assms(5) have c: "(case confirmBeforeSync w of None \<Rightarrow> True | Some b \<Rightarrow> b)"
    by (cases "confirmBeforeSync w") auto
  obtain a w1 where sw: "showWarningMessage (confirmPrompt env w workspaceFolder source) w = (a, w1)"
    by (cases "showWarningMessage (confirmPrompt env w workspaceFolder source) w")
  then have a: "a = nextAnswer w"
    using showWarningMessage_nextAnswer(1)[of "confirmPrompt env w workspaceFolder source" w] by simp
  show ?thesis
    using assms(1-4) c sw a
    by (simp add: syncInstructions_def Let_def confirmPrompt_def)
qed

text \<open>
  C7. When the prompt is shown (the content was fetched and differs from the local file,
  confirmation is required, \<open>confirmAll\<close> is not set and the setting \<open>confirmBeforeSync\<close> is
  not off) and the answer is No, or the prompt is dismissed, \<open>syncInstructions\<close> returns
  \<open>false\<close>, writes no file, leaves the session and the setting as they were, and shows
  nothing but the prompt: no error message.
\<close>

theorem declined_prompt_is_skipped:
  assumes "fetchContent env w (url source) = Inr remoteContent"
      and "getLocalInstructions env w workspaceFolder source \<noteq> Some remoteContent"
      and "requireConfirmation" and "\<not> sessionConfirmAll session"
      and "confirmBeforeSync w \<noteq> Some False"
      and "nextAnswer w = Some No \<or> nextAnswer w = None"
  shows "outcome (syncInstructions env workspaceFolder source showNotifications
                    requireConfirmation session w) = False
       \<and> sessionAfter (syncInstructions env workspaceFolder source showNotifications
                    requireConfirmation session w) = session
       \<and> files (worldAfter (syncInstructions env workspaceFolder source showNotifications
                    requireConfirmation session w)) = files w
       \<and> confirmBeforeSync (worldAfter (syncInstructions env workspaceFolder source
                    showNotifications requireConfirmation session w)) = confirmBeforeSync w
       \<and> shown (worldAfter (syncInstructions env workspaceFolder source showNotifications
                    requireConfirmation session w))
           = shown w @ [confirmPrompt env w workspaceFolder source]"
  using assms(6)
  by (auto simp: syncInstructions_prompted[OF assms(1-5)] Let_def outcome_def sessionAfter_def
        worldAfter_def showWarningMessage_nextAnswer)

lemma fetch_general:
  "fetchContent exampleEnv w (url csGeneral) = Inr ''# General''"
  by (simp add: fetchContent_def csGeneral_def isLocalPath_def exampleEnv_def Let_def
        isValidInstructionContent_def trim_def isWhiteSpace_def toLowerCase_def lowerChar_def
        isUpper_def)

lemma fetch_testing:
  "fetchContent exampleEnv w (url csTesting) = Inr ''# Testing''"
  by (simp add: fetchContent_def csTesting_def isLocalPath_def exampleEnv_def Let_def
        isValidInstructionContent_def trim_def isWhiteSpace_def toLowerCase_def lowerChar_def
        isUpper_def)

lemma dest_general:
  "destinationUri exampleEnv appFolder csGeneral = ''file:///work/app/.github/copilot-instructions.md''"
  by (simp add: destinationUri_def exampleEnv_def appFolder_def csGeneral_def
        getDestinationPath_def Let_def)

lemma dest_testing:
  "destinationUri exampleEnv appFolder csTesting = ''file:///work/app/.github/copilot-testing.md''"
  by (simp add: destinationUri_def exampleEnv_def appFolder_def csTesting_def
        getDestinationPath_def Let_def)

lemma local_general: "getLocalInstructions exampleEnv exampleWorld appFolder csGeneral = None"
  using dest_general
  by (simp add: getLocalInstructions_def destinationUri_def exampleWorld_def)

lemma local_testing:
  "getLocalInstructions exampleEnv (exampleWorld\<lparr>answers := []\<rparr>) appFolder csTesting = None"
  using dest_testing
  by (simp add: getLocalInstructions_def destinationUri_def exampleWorld_def)

lemma getLocalInstructions_destinationUri:
  "getLocalInstructions env w workspaceFolder source
     = files w (destinationUri env workspaceFolder source)"
  by (simp add: getLocalInstructions_def destinationUri_def)

theorem declined_prompt_is_skipped_witness:
  "outcome (syncInstructions exampleEnv appFolder csGeneral True True
              (Some \<lparr>confirmAll = False\<rparr>) (exampleWorld\<lparr>answers := [Some No]\<rparr>)) = False
   \<and> sessionAfter (syncInstructions exampleEnv appFolder csGeneral True True
              (Some \<lparr>confirmAll = False\<rparr>) (exampleWorld\<lparr>answers := [Some No]\<rparr>))
        = Some \<lparr>confirmAll = False\<rparr>
   \<and> files (worldAfter (syncInstructions exampleEnv appFolder csGeneral True True
              (Some \<lparr>confirmAll = False\<rparr>) (exampleWorld\<lparr>answers := [Some No]\<rparr>)))
        = files exampleWorld
   \<and> shown (worldAfter (syncInstructions exampleEnv appFolder csGeneral True True
              (Some \<lparr>confirmAll = False\<rparr>) (exampleWorld\<lparr>answers := [Some No]\<rparr>)))
        = [ConfirmPrompt Create ''copilot-instructions.md'' ''app'' ''C#'']
   \<and> outcome (syncInstructions exampleEnv appFolder csGeneral True True
              None (exampleWorld\<lparr>answers := [None, Some Yes]\<rparr>)) = False
   \<and> files (worldAfter (syncInstructions exampleEnv appFolder csGeneral True True
              None (exampleWorld\<lparr>answers := [None, Some Yes]\<rparr>))) = files exampleWorld"
proof -
  let ?w1 = "exampleWorld\<lparr>answers := [Some No]\<rparr>"
  let ?w2 = "exampleWorld\<lparr>answers := [None, Some Yes]\<rparr>"
  have l1: "getLocalInstructions exampleEnv ?w1 appFolder csGeneral = None"
    and l2: "getLocalInstructions exampleEnv ?w2 appFolder csGeneral = None"
    unfolding getLocalInstructions_destinationUri dest_general
    by (simp_all add: exampleWorld_def)
  have p1: "confirmPrompt exampleEnv ?w1 appFolder csGeneral
              = ConfirmPrompt Create ''copilot-instructions.md'' ''app'' ''C#''"
    unfolding confirmPrompt_def l1
    by (simp add: getDestinationPath_def Let_def csGeneral_def appFolder_def)
  have d1: "getLocalInstructions exampleEnv ?w1 appFolder csGeneral \<noteq> Some ''# General''"
    and d2: "getLocalInstructions exampleEnv ?w2 appFolder csGeneral \<noteq> Some ''# General''"
    by (simp_all add: l1 l2)
  have n1: "\<not> sessionConfirmAll (Some \<lparr>confirmAll = False\<rparr>)"
    and n2: "\<not> sessionConfirmAll None"
    by (simp_all add: sessionConfirmAll_def)
  have c1: "confirmBeforeSync ?w1 \<noteq> Some False" and c2: "confirmBeforeSync ?w2 \<noteq> Some False"
    by (simp_all add: exampleWorld_def)
  have a1: "nextAnswer ?w1 = Some No \<or> nextAnswer ?w1 = None"
    and a2: "nextAnswer ?w2 = Some No \<or> nextAnswer ?w2 = None"
    by (simp_all add: nextAnswer_def)
  have one:
    "outcome (syncInstructions exampleEnv appFolder csGeneral True True
                (Some \<lparr>confirmAll = False\<rparr>) ?w1) = False
     \<and> sessionAfter (syncInstructions exampleEnv appFolder csGeneral True True
                (Some \<lparr>confirmAll = False\<rparr>) ?w1) = Some \<lparr>confirmAll = False\<rparr>
     \<and> files (worldAfter (syncInstructions exampleEnv appFolder csGeneral True True
                (Some \<lparr>confirmAll = False\<rparr>) ?w1)) = files ?w1
     \<and> confirmBeforeSync (worldAfter (syncInstructions exampleEnv appFolder csGeneral True True
                (Some \<lparr>confirmAll = False\<rparr>) ?w1)) = confirmBeforeSync ?w1
     \<and> shown (worldAfter (syncInstructions exampleEnv appFolder csGeneral True True
                (Some \<lparr>confirmAll = False\<rparr>) ?w1))
          = shown ?w1 @ [confirmPrompt exampleEnv ?w1 appFolder csGeneral]"
    by (rule declined_prompt_is_skipped [OF fetch_general d1 TrueI n1 c1 a1])
  have two:
    "outcome (syncInstructions exampleEnv appFolder csGeneral True True None ?w2) = False
     \<and> sessionAfter (syncInstructions exampleEnv appFolder csGeneral True True None ?w2) = None
     \<and> files (worldAfter (syncInstructions exampleEnv appFolder csGeneral True True None ?w2))
          = files ?w2
     \<and> confirmBeforeSync (worldAfter (syncInstructions exampleEnv appFolder csGeneral True True
                None ?w2)) = confirmBeforeSync ?w2
     \<and> shown (worldAfter (syncInstructions exampleEnv appFolder csGeneral True True None ?w2))
          = shown ?w2 @ [confirmPrompt exampleEnv ?w2 appFolder csGeneral]"
    by (rule declined_prompt_is_skipped [OF fetch_general d2 TrueI n2 c2 a2])
  have s1: "shown ?w1 = []" by (simp add: exampleWorld_def)
  from one two show ?thesis by (simp add: p1 s1)
qed

lemma syncInstructions_confirmAll:
  assumes "confirmAll s"
  shows "sessionAfter (syncInstructions env workspaceFolder source showNotifications
            requireConfirmation (Some s) w) = Some s"
    and "answers (worldAfter (syncInstructions env workspaceFolder source showNotifications
            requireConfirmation (Some s) w)) = answers w"
    and "prompts (worldAfter (syncInstructions env workspaceFolder source showNotifications
            requireConfirmation (Some s) w)) = prompts w"
  using assms
  by (simp_all add: syncInstructions_def sessionConfirmAll_def Let_def writeAndReport_def
        writeLocalInstructions_def syncFailed_def notify_def prompts_def sessionAfter_def
        worldAfter_def split: sum.split)

lemma syncInstructions_confirmAll_writes:
  assumes "confirmAll s"
      and "fetchContent env w (url source) = Inr remoteContent"
      and "getLocalInstructions env w workspaceFolder source \<noteq> Some remoteContent"
      and "\<not> writeFails env (destinationUri env workspaceFolder source)"
  shows "outcome (syncInstructions env workspaceFolder source showNotifications
            requireConfirmation (Some s) w) = True"
    and "files (worldAfter (syncInstructions env workspaceFolder source showNotifications
            requireConfirmation (Some s) w))
          = (files w)(destinationUri env workspaceFolder source \<mapsto> remoteContent)"
  using assms
  by (simp_all add: syncInstructions_def sessionConfirmAll_def Let_def writeAndReport_def
        writeLocalInstructions_def notify_def outcome_def worldAfter_def destinationUri_def)

lemma syncSources_confirmAll:
  assumes "confirmAll s"
  shows "sessionAfterRun (syncSources env workspaceFolder detected showNotifications srcs
                         (Some s, w, calls)) = Some s
       \<and> answers (worldAfterRun (syncSources env workspaceFolder detected showNotifications srcs
                         (Some s, w, calls))) = answers w
       \<and> prompts (worldAfterRun (syncSources env workspaceFolder detected showNotifications srcs
                         (Some s, w, calls))) = prompts w"
proof (induction srcs arbitrary: w calls)
  case Nil
  show ?case by (simp add: sessionAfterRun_def worldAfterRun_def)
next
  case (Cons source rest)
  obtain r session' w' where
    step: "syncInstructions env workspaceFolder source showNotifications True (Some s) w
             = (r, session', w')"
    by (cases "syncInstructions env workspaceFolder source showNotifications True (Some s) w")
  have s': "session' = Some s" and a': "answers w' = answers w" and p': "prompts w' = prompts w"
    using syncInstructions_confirmAll[OF assms, of env workspaceFolder source showNotifications True w]
    by (simp_all add: step sessionAfter_def worldAfter_def)
  show ?case
    using Cons.IH[of w calls] Cons.IH[of w' "calls @ [(workspaceFolder, source, r)]"]
    by (simp add: step s' a' p' split: option.split)
qed

lemma syncFolders_confirmAll:
  assumes "confirmAll s"
  shows "sessionAfterRun (syncFolders env showNotifications srcs folders (Some s, w, calls)) = Some s
       \<and> answers (worldAfterRun (syncFolders env showNotifications srcs folders
                                   (Some s, w, calls))) = answers w
       \<and> prompts (worldAfterRun (syncFolders env showNotifications srcs folders
                                   (Some s, w, calls))) = prompts w"
proof (induction folders arbitrary: w calls)
  case Nil
  show ?case by (simp add: sessionAfterRun_def worldAfterRun_def)
next
  case (Cons workspaceFolder rest)
  let ?d = "detectWorkspaceLanguage env workspaceFolder"
  obtain session' w' calls' where
    step: "syncSources env workspaceFolder ?d showNotifications srcs (Some s, w, calls)
             = (session', w', calls')"
    by (cases "syncSources env workspaceFolder ?d showNotifications srcs (Some s, w, calls)")
  have s': "session' = Some s" and a': "answers w' = answers w" and p': "prompts w' = prompts w"
    using syncSources_confirmAll[OF assms, of env workspaceFolder ?d showNotifications srcs w calls]
    by (simp_all add: step sessionAfterRun_def worldAfterRun_def)
  show ?case
    using Cons.IH[of w calls] Cons.IH[of w' calls']
    by (simp add: step s' a' p' Let_def)
qed

lemma sessionAfter_writeAndReport:
  "sessionAfter (writeAndReport env workspaceFolder source showNotifications session c w) = session"
  by (simp add: writeAndReport_def syncFailed_def sessionAfter_def split: sum.split)

lemma yes_to_all_sets_confirmAll:
  assumes "fetchContent env w (url source) = Inr remoteContent"
      and "getLocalInstructions env w workspaceFolder source \<noteq> Some remoteContent"
      and "confirmBeforeSync w \<noteq> Some False"
      and "\<not> confirmAll s"
      and "nextAnswer w = Some YesToAll"
  shows "sessionAfter (syncInstructions env workspaceFolder source showNotifications True (Some s) w)
           = Some (s\<lparr>confirmAll := True\<rparr>)"
proof -
  have n: "\<not> sessionConfirmAll (Some s)" using assms(4) by (simp add: sessionConfirmAll_def)
  show ?thesis
    using assms(5)
    by (simp add: syncInstructions_prompted[OF assms(1,2) TrueI n assms(3)] Let_def
          sessionAfter_writeAndReport)
qed

text \<open>
  Run level. Along a run, the prompts shown take the user's answers in order; once an answer
  is Yes to All the session has \<open>confirmAll\<close>, and nothing more is asked.
\<close>

lemma answeredUpTo_refl: "answeredUpTo session w session w"
  unfolding answeredUpTo_def by (intro exI[of _ 0]) simp

lemma answeredUpTo_trans:
  assumes "answeredUpTo s0 w0 s1 w1" and "answeredUpTo s1 w1 s2 w2"
  shows "answeredUpTo s0 w0 s2 w2"
proof -
  from assms(1) obtain n1 where
    l1: "length (prompts w1) = length (prompts w0) + n1"
    and a1: "answers w1 = drop n1 (answers w0)"
    and o1: "s1 = None \<longleftrightarrow> s0 = None"
    and c1: "if sessionConfirmAll s0 then n1 = 0 \<and> sessionConfirmAll s1
             else if sessionConfirmAll s1
                  then 0 < n1 \<and> Some YesToAll \<notin> set (take (n1 - 1) (answers w0))
                  else Some YesToAll \<notin> set (take n1 (answers w0))"
    unfolding answeredUpTo_def by blast
  from assms(2) obtain n2 where
    l2: "length (prompts w2) = length (prompts w1) + n2"
    and a2: "answers w2 = drop n2 (answers w1)"
    and o2: "s2 = None \<longleftrightarrow> s1 = None"
    and c2: "if sessionConfirmAll s1 then n2 = 0 \<and> sessionConfirmAll s2
             else if sessionConfirmAll s2
                  then 0 < n2 \<and> Some YesToAll \<notin> set (take (n2 - 1) (answers w1))
                  else Some YesToAll \<notin> set (take n2 (answers w1))"
    unfolding answeredUpTo_def by blast
  have l: "length (prompts w2) = length (prompts w0) + (n1 + n2)" using l1 l2 by simp
  have a: "answers w2 = drop (n1 + n2) (answers w0)" using a1 a2 by (simp add: add.commute)
  have o: "s2 = None \<longleftrightarrow> s0 = None" using o1 o2 by simp
  have t: "take (n1 + k) (answers w0) = take n1 (answers w0) @ take k (drop n1 (answers w0))" for k
    by (simp add: take_add)
  have c: "if sessionConfirmAll s0 then n1 + n2 = 0 \<and> sessionConfirmAll s2
           else if sessionConfirmAll s2
                then 0 < n1 + n2 \<and> Some YesToAll \<notin> set (take (n1 + n2 - 1) (answers w0))
                else Some YesToAll \<notin> set (take (n1 + n2) (answers w0))"
  proof (cases "sessionConfirmAll s0")
    case True
    with c1 c2 show ?thesis by simp
  next
    case n0: False
    show ?thesis
    proof (cases "sessionConfirmAll s1")
      case True
      with n0 c1 c2 show ?thesis by simp
    next
      case n1': False
      with n0 c1 have y1: "Some YesToAll \<notin> set (take n1 (answers w0))" by simp
      show ?thesis
      proof (cases "sessionConfirmAll s2")
        case True
        with n1' c2 have p: "0 < n2"
          and y2: "Some YesToAll \<notin> set (take (n2 - 1) (drop n1 (answers w0)))"
          by (simp_all add: a1)
        from p have "n1 + n2 - 1 = n1 + (n2 - 1)" by simp
        with y1 y2 t[of "n2 - 1"] have "Some YesToAll \<notin> set (take (n1 + n2 - 1) (answers w0))"
          by simp
        with n0 True p show ?thesis by simp
      next
        case False
        with n1' c2 have "Some YesToAll \<notin> set (take n2 (drop n1 (answers w0)))"
          by (simp add: a1)
        with y1 t[of n2] have "Some YesToAll \<notin> set (take (n1 + n2) (answers w0))" by simp
        with n0 False show ?thesis by simp
      qed
    qed
  qed
  from l a o c show ?thesis unfolding answeredUpTo_def by blast
qed

lemma writeAndReport_quiet:
  "sessionAfter (writeAndReport env workspaceFolder source showNotifications session c w) = session"
  "answers (worldAfter (writeAndReport env workspaceFolder source showNotifications session c w))
     = answers w"
  "prompts (worldAfter (writeAndReport env workspaceFolder source showNotifications session c w))
     = prompts w"
  by (simp_all add: writeAndReport_def writeLocalInstructions_def syncFailed_def notify_def
        prompts_def sessionAfter_def worldAfter_def Let_def)

lemma after_tuple:
  "outcome (r, session, w) = r" "sessionAfter (r, session, w) = session"
  "worldAfter (r, session, w) = w"
  by (simp_all add: outcome_def sessionAfter_def worldAfter_def)

lemma syncInstructions_answeredUpTo:
  "answeredUpTo (Some s) w
     (sessionAfter (syncInstructions env workspaceFolder source showNotifications True (Some s) w))
     (worldAfter (syncInstructions env workspaceFolder source showNotifications True (Some s) w))"
proof (cases "confirmAll s")
  case True
  show ?thesis
    unfolding answeredUpTo_def
    using syncInstructions_confirmAll[OF True, of env workspaceFolder source showNotifications True w]
          True
    by (intro exI[of _ 0]) (simp add: sessionConfirmAll_def)
next
  case nc: False
  let ?r = "syncInstructions env workspaceFolder source showNotifications True (Some s) w"
  have quiet: "answeredUpTo (Some s) w (sessionAfter ?r) (worldAfter ?r)"
    if "sessionAfter ?r = Some s" "answers (worldAfter ?r) = answers w"
       "prompts (worldAfter ?r) = prompts w"
    using that answeredUpTo_refl[of "Some s" w] unfolding answeredUpTo_def by simp
  show ?thesis
  proof (cases "fetchContent env w (url source)")
    case (Inl e)
    show ?thesis
      by (rule quiet)
         (simp_all add: syncInstructions_def Inl syncFailed_def sessionAfter_def worldAfter_def
            prompts_def)
  next
    case (Inr remoteContent)
    show ?thesis
    proof (cases "getLocalInstructions env w workspaceFolder source = Some remoteContent")
      case True
      show ?thesis
        by (rule quiet)
           (simp_all add: syncInstructions_def Inr True notify_def sessionAfter_def
              worldAfter_def prompts_def)
    next
      case differs: False
      show ?thesis
      proof (cases "confirmBeforeSync w = Some False")
        case True
        have r: "?r = writeAndReport env workspaceFolder source showNotifications (Some s)
                        remoteContent w"
          using nc differs True
          by (simp add: syncInstructions_def Inr sessionConfirmAll_def Let_def)
        show ?thesis by (rule quiet) (simp_all add: r writeAndReport_quiet)
      next
        case False
        have ns: "\<not> sessionConfirmAll (Some s)" using nc by (simp add: sessionConfirmAll_def)
        note p = syncInstructions_prompted[OF Inr differs TrueI ns False,
                   of showNotifications]
        let ?w1 = "snd (showWarningMessage (confirmPrompt env w workspaceFolder source) w)"
        have w1a: "answers ?w1 = drop 1 (answers w)"
          by (simp add: showWarningMessage_def drop_Suc split: list.split)
        have w1p: "length (prompts ?w1) = length (prompts w) + 1"
          by (simp add: showWarningMessage_def prompts_def confirmPrompt_def split: list.split)
        have na: "(nextAnswer w = Some YesToAll) = (Some YesToAll \<in> set (take 1 (answers w)))"
          by (cases "answers w") (auto simp: nextAnswer_def)
        have w2a: "answers (?w1\<lparr>confirmBeforeSync := Some False\<rparr>) = answers ?w1"
          and w2p: "prompts (?w1\<lparr>confirmBeforeSync := Some False\<rparr>) = prompts ?w1"
          by (simp_all add: prompts_def)
        have sa: "sessionAfter ?r = (if nextAnswer w = Some YesToAll
                                     then Some (s\<lparr>confirmAll := True\<rparr>) else Some s)"
          unfolding p Let_def by (simp add: writeAndReport_quiet after_tuple)
        have aa: "answers (worldAfter ?r) = drop 1 (answers w)"
          unfolding p Let_def by (simp add: writeAndReport_quiet after_tuple w1a w2a)
        have pa: "length (prompts (worldAfter ?r)) = length (prompts w) + 1"
          unfolding p Let_def by (simp add: writeAndReport_quiet after_tuple w1p w2p)
        show ?thesis
        proof (cases "nextAnswer w = Some YesToAll")
          case True
          show ?thesis
            unfolding answeredUpTo_def
            by (intro exI[of _ 1]) (simp add: sa aa pa True sessionConfirmAll_def nc)
        next
          case False
          with na have "Some YesToAll \<notin> set (take 1 (answers w))" by simp
          with False show ?thesis
            unfolding answeredUpTo_def
            by (intro exI[of _ 1]) (simp add: sa aa pa sessionConfirmAll_def nc)
        qed
      qed
    qed
  qed
qed

lemma syncSources_answeredUpTo:
  "answeredUpTo (Some s) w
     (sessionAfterRun (syncSources env workspaceFolder detected showNotifications srcs
                         (Some s, w, calls)))
     (worldAfterRun (syncSources env workspaceFolder detected showNotifications srcs
                         (Some s, w, calls)))"
proof (induction srcs arbitrary: s w calls)
  case Nil
  show ?case by (simp add: sessionAfterRun_def worldAfterRun_def answeredUpTo_refl)
next
  case (Cons source rest)
  let ?r = "syncInstructions env workspaceFolder source showNotifications True (Some s) w"
  obtain r session' w' where step: "?r = (r, session', w')" by (cases ?r)
  have one: "answeredUpTo (Some s) w session' w'"
    using syncInstructions_answeredUpTo[of s w env workspaceFolder source showNotifications]
    by (simp add: step after_tuple)
  then have "session' \<noteq> None" unfolding answeredUpTo_def by blast
  then obtain s' where s': "session' = Some s'" by auto
  have called: "answeredUpTo (Some s) w
     (sessionAfterRun (syncSources env workspaceFolder detected showNotifications rest
                         (Some s', w', calls @ [(workspaceFolder, source, r)])))
     (worldAfterRun (syncSources env workspaceFolder detected showNotifications rest
                         (Some s', w', calls @ [(workspaceFolder, source, r)])))"
    using one Cons.IH[of s' w' "calls @ [(workspaceFolder, source, r)]"]
    unfolding s' by (rule answeredUpTo_trans)
  show ?case
    using Cons.IH[of s w calls] called
    by (simp add: step s' split: option.split)
qed

lemma syncFolders_answeredUpTo:
  "answeredUpTo (Some s) w
     (sessionAfterRun (syncFolders env showNotifications srcs folders (Some s, w, calls)))
     (worldAfterRun (syncFolders env showNotifications srcs folders (Some s, w, calls)))"
proof (induction folders arbitrary: s w calls)
  case Nil
  show ?case by (simp add: sessionAfterRun_def worldAfterRun_def answeredUpTo_refl)
next
  case (Cons workspaceFolder rest)
  let ?d = "detectWorkspaceLanguage env workspaceFolder"
  let ?r = "syncSources env workspaceFolder ?d showNotifications srcs (Some s, w, calls)"
  obtain session' w' calls' where step: "?r = (session', w', calls')" by (cases ?r)
  have one: "answeredUpTo (Some s) w session' w'"
    using syncSources_answeredUpTo[of s w env workspaceFolder ?d showNotifications srcs calls]
    by (simp add: step sessionAfterRun_def worldAfterRun_def)
  then have "session' \<noteq> None" unfolding answeredUpTo_def by blast
  then obtain s' where s': "session' = Some s'" by auto
  have called: "answeredUpTo (Some s) w
     (sessionAfterRun (syncFolders env showNotifications srcs rest (Some s', w', calls')))
     (worldAfterRun (syncFolders env showNotifications srcs rest (Some s', w', calls')))"
    using one Cons.IH[of s' w' calls'] unfolding s' by (rule answeredUpTo_trans)
  show ?case
    using Cons.IH[of s w calls] called
    by (simp add: step s' Let_def)
qed

lemma answeredUpTo_fresh:
  assumes "answeredUpTo (Some s) w session' w'" and "\<not> confirmAll s"
  shows "length (prompts w) \<le> length (prompts w')"
    and "answers w' = drop (asked w w') (answers w)"
    and "Some YesToAll \<notin> set (take (asked w w' - 1) (answers w))"
    and "Some YesToAll \<in> set (take (asked w w') (answers w)) \<longrightarrow> sessionConfirmAll session'"
proof -
  from assms(1) obtain n where
    l: "length (prompts w') = length (prompts w) + n"
    and a: "answers w' = drop n (answers w)"
    and c: "if sessionConfirmAll (Some s) then n = 0 \<and> sessionConfirmAll session'
            else if sessionConfirmAll session'
                 then 0 < n \<and> Some YesToAll \<notin> set (take (n - 1) (answers w))
                 else Some YesToAll \<notin> set (take n (answers w))"
    unfolding answeredUpTo_def by blast
  have n: "asked w w' = n" using l by (simp add: asked_def)
  have ns: "\<not> sessionConfirmAll (Some s)" using assms(2) by (simp add: sessionConfirmAll_def)
  have sub: "set (take (n - 1) (answers w)) \<subseteq> set (take n (answers w))"
    by (rule set_take_subset_set_take) simp
  show "length (prompts w) \<le> length (prompts w')" using l by simp
  show "answers w' = drop (asked w w') (answers w)" using a n by simp
  show "Some YesToAll \<notin> set (take (asked w w' - 1) (answers w))"
    using c ns sub unfolding n by (auto split: if_splits)
  show "Some YesToAll \<in> set (take (asked w w') (answers w)) \<longrightarrow> sessionConfirmAll session'"
    using c ns unfolding n by (auto split: if_splits)
qed

lemma performSync_answeredUpTo:
  "\<exists>session'. answeredUpTo (Some \<lparr>confirmAll = False\<rparr>) w session'
                 (fst (performSync env showNotifications forceRefresh w))"
proof -
  let ?srcs = "getInstructionSources (remoteConfigFetched env forceRefresh) (localSources env)"
  have quiet: "answeredUpTo (Some \<lparr>confirmAll = False\<rparr>) w (Some \<lparr>confirmAll = False\<rparr>)
                 (notify showNotifications m w)"
    if "\<not> isConfirmPrompt m" for m
    unfolding answeredUpTo_def using that
    by (intro exI[of _ 0]) (simp add: notify_def prompts_def sessionConfirmAll_def)
  show ?thesis
  proof (cases "workspaceFolders env")
    case None
    then show ?thesis using quiet[of NoWorkspaceWarning] by (auto simp: performSync_def)
  next
    case (Some folders)
    show ?thesis
    proof (cases "folders = []")
      case True
      with Some show ?thesis using quiet[of NoWorkspaceWarning] by (auto simp: performSync_def)
    next
      case nf: False
      show ?thesis
      proof (cases "?srcs = []")
        case True
        with Some nf show ?thesis
          using quiet[of NoSourcesInfo] by (auto simp: performSync_def Let_def)
      next
        case False
        let ?r = "syncFolders env showNotifications ?srcs folders
                    (Some \<lparr>confirmAll = False\<rparr>, w, [])"
        obtain session' w' calls' where run: "?r = (session', w', calls')" by (cases ?r)
        have "answeredUpTo (Some \<lparr>confirmAll = False\<rparr>) w session' w'"
          using syncFolders_answeredUpTo[of "\<lparr>confirmAll = False\<rparr>" w env showNotifications
                  ?srcs folders "[]"]
          by (simp add: run sessionAfterRun_def worldAfterRun_def)
        moreover have "fst (performSync env showNotifications forceRefresh w) = w'"
          using Some nf False run by (simp add: performSync_def Let_def)
        ultimately show ?thesis by auto
      qed
    qed
  qed
qed

text \<open>A run of the example in which the first prompt is answered Yes to All.\<close>

lemma detect_app: "detectWorkspaceLanguage exampleEnv appFolder = [''C#'']"
  by (simp add: detectWorkspaceLanguage_def languagePatterns_def exampleEnv_def appFolder_def)

lemma example_sources:
  "getInstructionSources (remoteConfigFetched exampleEnv False) (localSources exampleEnv)
     = [csGeneral, csTesting, tsSource, csDisabled]"
  by (simp add: getInstructionSources_def exampleEnv_def)

lemma run_general:
  "syncInstructions exampleEnv appFolder csGeneral True True (Some \<lparr>confirmAll = False\<rparr>)
       twoAnswers
     = (True, Some \<lparr>confirmAll = True\<rparr>,
        \<lparr>files = [''file:///work/app/.github/copilot-instructions.md'' \<mapsto> ''# General''],
         confirmBeforeSync = None, answers = [Some No],
         shown = [ConfirmPrompt Create ''copilot-instructions.md'' ''app'' ''C#'',
                  UpdatedInfo ''copilot-instructions.md'' ''app'' ''C#'']\<rparr>)"
proof -
  have l: "getLocalInstructions exampleEnv twoAnswers appFolder csGeneral = None"
    unfolding getLocalInstructions_destinationUri dest_general by (simp add: twoAnswers_def)
  have d: "joinPath exampleEnv (uri appFolder) (fullPath (getDestinationPath (Some csGeneral)))
             = ''file:///work/app/.github/copilot-instructions.md''"
    using dest_general by (simp add: destinationUri_def)
  have f: "file (getDestinationPath (Some csGeneral)) = ''copilot-instructions.md''"
    by (simp add: getDestinationPath_def csGeneral_def Let_def)
  have m: "name appFolder = ''app''" "language csGeneral = ''C#''"
    by (simp_all add: appFolder_def csGeneral_def)
  have w: "\<not> writeFails exampleEnv u" for u by (simp add: exampleEnv_def)
  show ?thesis
    unfolding syncInstructions_def fetch_general l
    by (simp add: sessionConfirmAll_def showWarningMessage_def writeAndReport_def
          writeLocalInstructions_def notify_def d f m w Let_def twoAnswers_def)
qed

lemma run_testing:
  "syncInstructions exampleEnv appFolder csTesting True True (Some \<lparr>confirmAll = True\<rparr>)
       \<lparr>files = [''file:///work/app/.github/copilot-instructions.md'' \<mapsto> ''# General''],
        confirmBeforeSync = None, answers = [Some No],
        shown = [ConfirmPrompt Create ''copilot-instructions.md'' ''app'' ''C#'',
                 UpdatedInfo ''copilot-instructions.md'' ''app'' ''C#'']\<rparr>
     = (True, Some \<lparr>confirmAll = True\<rparr>,
        \<lparr>files = [''file:///work/app/.github/copilot-instructions.md'' \<mapsto> ''# General'',
                  ''file:///work/app/.github/copilot-testing.md'' \<mapsto> ''# Testing''],
         confirmBeforeSync = None, answers = [Some No],
         shown = [ConfirmPrompt Create ''copilot-instructions.md'' ''app'' ''C#'',
                  UpdatedInfo ''copilot-instructions.md'' ''app'' ''C#'',
                  UpdatedInfo ''copilot-testing.md'' ''app'' ''c#'']\<rparr>)"
proof -
  let ?w = "\<lparr>files = [''file:///work/app/.github/copilot-instructions.md'' \<mapsto> ''# General''],
        confirmBeforeSync = None, answers = [Some No],
        shown = [ConfirmPrompt Create ''copilot-instructions.md'' ''app'' ''C#'',
                 UpdatedInfo ''copilot-instructions.md'' ''app'' ''C#'']\<rparr>"
  have l: "getLocalInstructions exampleEnv ?w appFolder csTesting = None"
    unfolding getLocalInstructions_destinationUri dest_testing by simp
  have d: "joinPath exampleEnv (uri appFolder) (fullPath (getDestinationPath (Some csTesting)))
             = ''file:///work/app/.github/copilot-testing.md''"
    using dest_testing by (simp add: destinationUri_def)
  have f: "file (getDestinationPath (Some csTesting)) = ''copilot-testing.md''"
    by (simp add: getDestinationPath_def csTesting_def Let_def)
  have m: "name appFolder = ''app''" "language csTesting = ''c#''"
    by (simp_all add: appFolder_def csTesting_def)
  have w: "\<not> writeFails exampleEnv u" for u by (simp add: exampleEnv_def)
  show ?thesis
    unfolding syncInstructions_def fetch_testing l
    by (simp add: sessionConfirmAll_def writeAndReport_def
          writeLocalInstructions_def notify_def d f m w Let_def)
qed

lemma lower_examples:
  "toLowerCase ''C#'' = ''c#''" "toLowerCase (language csGeneral) = ''c#''"
  "toLowerCase (language csTesting) = ''c#''" "toLowerCase (language tsSource) = ''typescript''"
  "enabled csGeneral = None" "enabled csTesting = Some True"
  "enabled tsSource = None" "enabled csDisabled = Some False"
  by (simp_all add: csGeneral_def csTesting_def tsSource_def csDisabled_def toLowerCase_def
        lowerChar_def isUpper_def)

lemma run_example:
  "performSync exampleEnv True False twoAnswers
     = (\<lparr>files = [''file:///work/app/.github/copilot-instructions.md'' \<mapsto> ''# General'',
                  ''file:///work/app/.github/copilot-testing.md'' \<mapsto> ''# Testing''],
         confirmBeforeSync = None, answers = [Some No],
         shown = [ConfirmPrompt Create ''copilot-instructions.md'' ''app'' ''C#'',
                  UpdatedInfo ''copilot-instructions.md'' ''app'' ''C#'',
                  UpdatedInfo ''copilot-testing.md'' ''app'' ''c#'']\<rparr>,
        [(appFolder, csGeneral, True), (appFolder, csTesting, True)])"
proof -
  have wf: "workspaceFolders exampleEnv = Some [appFolder]" by (simp add: exampleEnv_def)
  show ?thesis
    unfolding performSync_def wf
    by (simp add: example_sources detect_app lower_examples run_general run_testing Let_def)
qed

text \<open>
  C4. In a session whose \<open>confirmAll\<close> is false, a prompt answered Yes to All sets
  \<open>confirmAll\<close>. From then on, every \<open>syncInstructions\<close> call with that session leaves
  \<open>confirmAll\<close> set, asks nothing (the user's answers and the prompts shown stay as they
  were) and, when the fetched content differs from the local file, writes it (returning
  \<open>true\<close>, unless the editor's write fails); so do the rest of the iteration over the
  sources and the iteration over the remaining roots. And the later calls of a run do get
  the session the earlier ones left: in the iteration over the sources of a root, in the one
  over the roots, and in a whole \<open>performSync\<close> run, which starts with \<open>confirmAll\<close>
  false, the prompts shown take the next answers in order, no answer taken before the last
  one is Yes to All, and an iteration in which Yes to All was answered ends with
  \<open>confirmAll\<close> set. That is: after a Yes to All, the run asks nothing more.
\<close>

theorem yes_to_all_skips_later_prompts:
  "(fetchContent env w (url source) = Inr remoteContent
      \<and> getLocalInstructions env w workspaceFolder source \<noteq> Some remoteContent
      \<and> confirmBeforeSync w \<noteq> Some False \<and> \<not> confirmAll s
      \<and> nextAnswer w = Some YesToAll
     \<longrightarrow> sessionAfter (syncInstructions env workspaceFolder source showNotifications True
                          (Some s) w) = Some (s\<lparr>confirmAll := True\<rparr>))
   \<and> (confirmAll s \<longrightarrow>
        sessionAfter (syncInstructions env workspaceFolder source showNotifications
                        requireConfirmation (Some s) w) = Some s
        \<and> answers (worldAfter (syncInstructions env workspaceFolder source showNotifications
                        requireConfirmation (Some s) w)) = answers w
        \<and> prompts (worldAfter (syncInstructions env workspaceFolder source showNotifications
                        requireConfirmation (Some s) w)) = prompts w
        \<and> (fetchContent env w (url source) = Inr remoteContent
             \<and> getLocalInstructions env w workspaceFolder source \<noteq> Some remoteContent
             \<and> \<not> writeFails env (destinationUri env workspaceFolder source)
            \<longrightarrow> outcome (syncInstructions env workspaceFolder source showNotifications
                            requireConfirmation (Some s) w) = True
                \<and> files (worldAfter (syncInstructions env workspaceFolder source
                            showNotifications requireConfirmation (Some s) w))
                    = (files w)(destinationUri env workspaceFolder source \<mapsto> remoteContent)))
   \<and> (confirmAll s \<longrightarrow>
        sessionAfterRun (syncSources env workspaceFolder detected showNotifications srcs
                           (Some s, w, calls)) = Some s
        \<and> answers (worldAfterRun (syncSources env workspaceFolder detected showNotifications srcs
                           (Some s, w, calls))) = answers w
        \<and> prompts (worldAfterRun (syncSources env workspaceFolder detected showNotifications srcs
                           (Some s, w, calls))) = prompts w)
   \<and> (confirmAll s \<longrightarrow>
        sessionAfterRun (syncFolders env showNotifications srcs folders (Some s, w, calls)) = Some s
        \<and> answers (worldAfterRun (syncFolders env showNotifications srcs folders
                           (Some s, w, calls))) = answers w
        \<and> prompts (worldAfterRun (syncFolders env showNotifications srcs folders
                           (Some s, w, calls))) = prompts w)
   \<and> (\<not> confirmAll s \<longrightarrow>
        answers (worldAfterRun (syncSources env workspaceFolder detected showNotifications srcs
                           (Some s, w, calls)))
          = drop (asked w (worldAfterRun (syncSources env workspaceFolder detected
                              showNotifications srcs (Some s, w, calls)))) (answers w)
        \<and> Some YesToAll
            \<notin> set (take (asked w (worldAfterRun (syncSources env workspaceFolder detected
                              showNotifications srcs (Some s, w, calls))) - 1) (answers w))
        \<and> (Some YesToAll
             \<in> set (take (asked w (worldAfterRun (syncSources env workspaceFolder detected
                              showNotifications srcs (Some s, w, calls)))) (answers w))
            \<longrightarrow> sessionConfirmAll (sessionAfterRun (syncSources env workspaceFolder detected
                              showNotifications srcs (Some s, w, calls)))))
   \<and> (\<not> confirmAll s \<longrightarrow>
        answers (worldAfterRun (syncFolders env showNotifications srcs folders
                           (Some s, w, calls)))
          = drop (asked w (worldAfterRun (syncFolders env showNotifications srcs folders
                              (Some s, w, calls)))) (answers w)
        \<and> Some YesToAll
            \<notin> set (take (asked w (worldAfterRun (syncFolders env showNotifications srcs folders
                              (Some s, w, calls))) - 1) (answers w))
        \<and> (Some YesToAll
             \<in> set (take (asked w (worldAfterRun (syncFolders env showNotifications srcs folders
                              (Some s, w, calls)))) (answers w))
            \<longrightarrow> sessionConfirmAll (sessionAfterRun (syncFolders env showNotifications srcs
                              folders (Some s, w, calls)))))
   \<and> length (prompts w) \<le> length (prompts (fst (performSync env showNotifications forceRefresh w)))
   \<and> answers (fst (performSync env showNotifications forceRefresh w))
       = drop (asked w (fst (performSync env showNotifications forceRefresh w))) (answers w)
   \<and> Some YesToAll
       \<notin> set (take (asked w (fst (performSync env showNotifications forceRefresh w)) - 1)
                (answers w))"
proof (intro conjI impI)
  assume "fetchContent env w (url source) = Inr remoteContent
      \<and> getLocalInstructions env w workspaceFolder source \<noteq> Some remoteContent
      \<and> confirmBeforeSync w \<noteq> Some False \<and> \<not> confirmAll s
      \<and> nextAnswer w = Some YesToAll"
  then show "sessionAfter (syncInstructions env workspaceFolder source showNotifications True
                          (Some s) w) = Some (s\<lparr>confirmAll := True\<rparr>)"
    using yes_to_all_sets_confirmAll by blast
next
  obtain session' where
    "answeredUpTo (Some \<lparr>confirmAll = False\<rparr>) w session'
       (fst (performSync env showNotifications forceRefresh w))"
    using performSync_answeredUpTo by blast
  note run = answeredUpTo_fresh [OF this]
  show "length (prompts w)
          \<le> length (prompts (fst (performSync env showNotifications forceRefresh w)))"
    and "answers (fst (performSync env showNotifications forceRefresh w))
           = drop (asked w (fst (performSync env showNotifications forceRefresh w))) (answers w)"
    and "Some YesToAll
           \<notin> set (take (asked w (fst (performSync env showNotifications forceRefresh w)) - 1)
                    (answers w))"
    using run by simp_all
qed (simp_all add: syncInstructions_confirmAll syncInstructions_confirmAll_writes
       syncSources_confirmAll syncFolders_confirmAll
       answeredUpTo_fresh [OF syncSources_answeredUpTo]
       answeredUpTo_fresh [OF syncFolders_answeredUpTo] del: One_nat_def)

theorem yes_to_all_skips_later_prompts_witness:
  "sessionAfter (syncInstructions exampleEnv appFolder csGeneral True True
                   (Some \<lparr>confirmAll = False\<rparr>) exampleWorld) = Some \<lparr>confirmAll = True\<rparr>
   \<and> outcome (syncInstructions exampleEnv appFolder csTesting True True
                 (Some \<lparr>confirmAll = True\<rparr>) (exampleWorld\<lparr>answers := []\<rparr>)) = True
   \<and> files (worldAfter (syncInstructions exampleEnv appFolder csTesting True True
                 (Some \<lparr>confirmAll = True\<rparr>) (exampleWorld\<lparr>answers := []\<rparr>)))
        ''file:///work/app/.github/copilot-testing.md'' = Some ''# Testing''
   \<and> prompts (worldAfter (syncInstructions exampleEnv appFolder csTesting True True
                 (Some \<lparr>confirmAll = True\<rparr>) (exampleWorld\<lparr>answers := []\<rparr>))) = []
   \<and> prompts (worldAfterRun (syncFolders exampleEnv True [csGeneral, csTesting] [appFolder]
                 (Some \<lparr>confirmAll = True\<rparr>, exampleWorld\<lparr>answers := []\<rparr>, []))) = []
   \<and> answers twoAnswers = [Some YesToAll, Some No]
   \<and> snd (performSync exampleEnv True False twoAnswers)
       = [(appFolder, csGeneral, True), (appFolder, csTesting, True)]
   \<and> prompts (fst (performSync exampleEnv True False twoAnswers))
       = [ConfirmPrompt Create ''copilot-instructions.md'' ''app'' ''C#'']
   \<and> asked twoAnswers (fst (performSync exampleEnv True False twoAnswers)) = 1
   \<and> answers (fst (performSync exampleEnv True False twoAnswers)) = [Some No]
   \<and> files (fst (performSync exampleEnv True False twoAnswers))
         ''file:///work/app/.github/copilot-instructions.md'' = Some ''# General''
   \<and> files (fst (performSync exampleEnv True False twoAnswers))
         ''file:///work/app/.github/copilot-testing.md'' = Some ''# Testing''"
proof -
  have a: "nextAnswer exampleWorld = Some YesToAll"
    and c: "confirmBeforeSync exampleWorld \<noteq> Some False"
    and p: "prompts (exampleWorld\<lparr>answers := []\<rparr>) = []"
    and f: "files (exampleWorld\<lparr>answers := []\<rparr>) = files exampleWorld"
    by (simp_all add: nextAnswer_def exampleWorld_def prompts_def)
  have wf: "\<not> writeFails exampleEnv (destinationUri exampleEnv appFolder csTesting)"
    by (simp add: exampleEnv_def)
  have one: "sessionAfter (syncInstructions exampleEnv appFolder csGeneral True True
                   (Some \<lparr>confirmAll = False\<rparr>) exampleWorld) = Some \<lparr>confirmAll = True\<rparr>"
    using yes_to_all_skips_later_prompts
            [where env = exampleEnv and w = exampleWorld and source = csGeneral
               and remoteContent = "''# General''" and workspaceFolder = appFolder
               and s = "\<lparr>confirmAll = False\<rparr>" and showNotifications = True]
          fetch_general local_general a c
    by simp
  have two: "outcome (syncInstructions exampleEnv appFolder csTesting True True
                 (Some \<lparr>confirmAll = True\<rparr>) (exampleWorld\<lparr>answers := []\<rparr>)) = True
     \<and> files (worldAfter (syncInstructions exampleEnv appFolder csTesting True True
                 (Some \<lparr>confirmAll = True\<rparr>) (exampleWorld\<lparr>answers := []\<rparr>)))
          = (files exampleWorld)(''file:///work/app/.github/copilot-testing.md'' \<mapsto> ''# Testing'')
     \<and> prompts (worldAfter (syncInstructions exampleEnv appFolder csTesting True True
                 (Some \<lparr>confirmAll = True\<rparr>) (exampleWorld\<lparr>answers := []\<rparr>))) = []
     \<and> prompts (worldAfterRun (syncFolders exampleEnv True [csGeneral, csTesting] [appFolder]
                 (Some \<lparr>confirmAll = True\<rparr>, exampleWorld\<lparr>answers := []\<rparr>, []))) = []"
    using yes_to_all_skips_later_prompts
            [where env = exampleEnv and w = "exampleWorld\<lparr>answers := []\<rparr>"
               and source = csTesting and remoteContent = "''# Testing''"
               and workspaceFolder = appFolder and s = "\<lparr>confirmAll = True\<rparr>"
               and showNotifications = True and requireConfirmation = True
               and srcs = "[csGeneral, csTesting]" and folders = "[appFolder]" and calls = "[]"]
          fetch_testing local_testing wf p f
    by (simp add: dest_testing)
  let ?w' = "fst (performSync exampleEnv True False twoAnswers)"
  have ans: "answers twoAnswers = [Some YesToAll, Some No]" by (simp add: twoAnswers_def)
  have pr: "prompts ?w' = [ConfirmPrompt Create ''copilot-instructions.md'' ''app'' ''C#'']"
    and fg: "files ?w' ''file:///work/app/.github/copilot-instructions.md'' = Some ''# General''"
    and ft: "files ?w' ''file:///work/app/.github/copilot-testing.md'' = Some ''# Testing''"
    and cl: "snd (performSync exampleEnv True False twoAnswers)
               = [(appFolder, csGeneral, True), (appFolder, csTesting, True)]"
    by (simp_all add: run_example prompts_def)
  have "prompts twoAnswers = []" by (simp add: twoAnswers_def prompts_def)
  then have n: "asked twoAnswers ?w' = 1" by (simp add: asked_def pr)
  have three: "answers ?w' = drop (asked twoAnswers ?w') (answers twoAnswers)"
    using yes_to_all_skips_later_prompts
            [where env = exampleEnv and w = twoAnswers and showNotifications = True
               and forceRefresh = False]
    by blast
  then have left: "answers ?w' = [Some No]" by (simp add: n ans)
  from one two ans cl pr n left fg ft show ?thesis by simp
qed

text \<open>
  A local file that holds an HTML error page is synced as it is (here in a call that asks
  for no confirmation).
\<close>

lemma local_error_page_is_synced:
  "outcome (syncInstructions exampleEnv appFolder localSource False False None exampleWorld) = True
   \<and> files (worldAfter (syncInstructions exampleEnv appFolder localSource False False None
                          exampleWorld)) ''file:///work/app/.github/shared.md'' = Some errorPage"
proof -
  have f: "fetchContent exampleEnv exampleWorld (url localSource) = Inr errorPage"
    by (simp add: fetchContent_def localSource_def isLocalPath_def localPathToUri_def
          exampleEnv_def exampleWorld_def)
  have d: "destinationUri exampleEnv appFolder localSource = ''file:///work/app/.github/shared.md''"
    by (simp add: destinationUri_def exampleEnv_def appFolder_def localSource_def
          getDestinationPath_def Let_def)
  have l: "getLocalInstructions exampleEnv exampleWorld appFolder localSource = None"
    unfolding getLocalInstructions_destinationUri d by (simp add: exampleWorld_def)
  have w: "\<not> writeFails exampleEnv ''file:///work/app/.github/shared.md''"
    by (simp add: exampleEnv_def)
  show ?thesis
    using w
    by (simp add: syncInstructions_def f l Let_def writeAndReport_def writeLocalInstructions_def
          d[unfolded destinationUri_def] notify_def outcome_def worldAfter_def)
qed


section \<open>The sync run: every matching source\<close>



lemma find_truthy:
  assumes "\<forall>l \<in> set detected. l \<noteq> []"
  shows "(case find P detected of None \<Rightarrow> False | Some m \<Rightarrow> m \<noteq> []) = (\<exists>l \<in> set detected. P l)"
proof (cases "find P detected")
  case None
  then have "\<not> (\<exists>l \<in> set detected. P l)" by (simp add: find_None_iff)
  with None show ?thesis by simp
next
  case (Some m)
  then have "m \<in> set detected" "P m" by (auto simp: find_Some_iff)
  with assms Some show ?thesis by auto
qed




lemma example_matches:
  "matches [''C#''] csGeneral" "matches [''C#''] csTesting"
  "\<not> matches [''C#''] tsSource" "\<not> matches [''C#''] csDisabled"
  by (simp_all add: matches_def csGeneral_def csTesting_def tsSource_def csDisabled_def
        toLowerCase_def lowerChar_def isUpper_def)


text \<open>
  The earlier revision of the loop, which \<^verbatim>\<open>src/extension.ts\<close> holds, syncs the
  first matching source of a root and stops there.
\<close>

lemma syncSourcesFirstMatch_calls:
  assumes "\<forall>l \<in> set detected. l \<noteq> []"
  shows "syncedPairs (snd (syncSourcesFirstMatch sync workspaceFolder detected srcs (st, calls)))
         = syncedPairs calls
             @ map (Pair workspaceFolder) (take 1 (filter (matches detected) srcs))"
proof (induction srcs arbitrary: st calls)
  case Nil
  show ?case by simp
next
  case (Cons source rest)
  let ?P = "\<lambda>lang. toLowerCase lang = toLowerCase (language source)"
  have t: "(case find ?P detected of None \<Rightarrow> False | Some m \<Rightarrow> m \<noteq> [])
             = (\<exists>l \<in> set detected. ?P l)"
    using assms by (rule find_truthy)
  show ?case
  proof (cases "matches detected source")
    case True
    then have en: "enabled source \<noteq> Some False" and ex: "\<exists>l \<in> set detected. ?P l"
      by (auto simp: matches_def)
    from ex t obtain m where m: "find ?P detected = Some m" "m \<noteq> []"
      by (cases "find ?P detected") auto
    obtain r st' where step: "sync workspaceFolder source st = (r, st')"
      by (cases "sync workspaceFolder source st")
    show ?thesis using True en m by (simp add: step syncedPairs_def)
  next
    case False
    then have "enabled source = Some False \<or> \<not> (\<exists>l \<in> set detected. ?P l)"
      by (auto simp: matches_def)
    then have "enabled source = Some False \<or> find ?P detected = None
               \<or> find ?P detected = Some []"
      using t by (cases "find ?P detected") auto
    then show ?thesis
      using Cons.IH[of st calls] False by auto
  qed
qed

lemma first_match_revision_stops:
  "syncedPairs (snd (syncSourcesFirstMatch sync appFolder [''C#'']
                       [csGeneral, csTesting, tsSource, csDisabled] (st, [])))
     = [(appFolder, csGeneral)]"
  using syncSourcesFirstMatch_calls[of "[''C#'']" sync appFolder
          "[csGeneral, csTesting, tsSource, csDisabled]" st "[]"]
  by (simp add: example_matches syncedPairs_def)


section \<open>The remote configuration: which entries are kept\<close>

lemma typeof_string: "typeof v = ''string'' \<longleftrightarrow> (\<exists>s. v = Str s)"
  by (cases v) auto

lemma getProp_Obj: "getProp (Obj kvs) key = Some (field kvs key)"
  by (simp add: field_def split: option.split)

lemma keepSource_iff:
  "keepSource e \<longleftrightarrow>
     (\<exists>kvs l u. e = Obj kvs \<and> field kvs ''language'' = Str l \<and> field kvs ''url'' = Str u)"
proof (cases e)
  case (Obj kvs)
  then show ?thesis
    by (simp add: keepSource_def getProp_Obj typeof_string del: getProp.simps)
qed (simp_all add: keepSource_def)

text \<open>
  C8, as amended. When the remote configuration is fetched and parsed and its \<open>sources\<close> is
  an array, \<open>fetchRemoteConfig\<close> returns a configuration (the load does not fail, whatever
  the entries are) whose sources are the entries that are objects with a string \<open>language\<close>
  and a string \<open>url\<close>, in their order; every other entry is dropped. The fields
  \<open>enabled\<close>, \<open>destinationFolder\<close> and \<open>destinationFile\<close> are not checked.
\<close>

theorem remote_entries_checked_for_language_and_url:
  assumes "remoteConfigUrl \<noteq> []"
      and "cachedConfig forceRefresh remoteConfigCache (cacheSeconds * 1000) now = None"
      and "fetchContent env w remoteConfigUrl = Inr content"
      and "JSON_parse env content = Some parsed"
      and "getProp parsed ''sources'' = Some (Arr entries)"
  shows "\<exists>remoteConf.
           fetchRemoteConfig env remoteConfigUrl cacheSeconds now forceRefresh
               (remoteConfigCache, w)
             = (Some remoteConf, Some \<lparr>config = remoteConf, timestamp = now\<rparr>, w)
           \<and> parsedSources remoteConf = Some (filter keepSource entries)
           \<and> (\<forall>e \<in> set entries.
                 e \<in> set (filter keepSource entries) \<longleftrightarrow>
                 (\<exists>kvs l u. e = Obj kvs \<and> field kvs ''language'' = Str l
                            \<and> field kvs ''url'' = Str u))"
proof -
  from assms(5) obtain kvs where o: "parsed = Obj kvs" by (cases parsed) auto
  have b: "\<exists>remoteConf. buildRemoteConf parsed = Inr remoteConf
              \<and> parsedSources remoteConf = Some (filter keepSource entries)"
    using assms(5) unfolding o
    by (simp add: buildRemoteConf_def getProp_Obj del: getProp.simps)
  then obtain remoteConf where rc: "buildRemoteConf parsed = Inr remoteConf"
    "parsedSources remoteConf = Some (filter keepSource entries)" by blast
  have "fetchRemoteConfig env remoteConfigUrl cacheSeconds now forceRefresh (remoteConfigCache, w)
          = (Some remoteConf, Some \<lparr>config = remoteConf, timestamp = now\<rparr>, w)"
    using assms(1-4) rc(1)
    by (simp add: fetchRemoteConfig_def loadRemoteConf_def Let_def)
  with rc(2) show ?thesis by (auto simp: keepSource_iff)
qed

lemma parse_config: "parseExample configText = Some configDocument"
  by (simp add: parseExample_def configText_def)

lemma configText_valid:
  "isValidInstructionContent parseExample configText source = \<lparr>valid = True, reason = None\<rparr>"
proof -
  have a: "apiErrorCheck parseExample configText = None"
    by (simp add: apiErrorCheck_def parse_config configDocument_def orElse_def)
  show ?thesis
    unfolding isValidInstructionContent_def a
    by (simp add: configText_def trim_def isWhiteSpace_def toLowerCase_def lowerChar_def
          isUpper_def Let_def)
qed

lemma fetch_config:
  "fetchContent exampleEnv w ''https://example.com/config.json'' = Inr configText"
  by (simp add: fetchContent_def isLocalPath_def exampleEnv_def Let_def configText_valid)

lemma keep_examples:
  "keepSource looseEntry" "\<not> keepSource (Obj [(''language'', Num ''7''), (''url'', Str ''x'')])"
  "\<not> keepSource Null" "\<not> keepSource (Str ''text'')"
  by (simp_all add: keepSource_def looseEntry_def)

theorem remote_entries_checked_for_language_and_url_witness:
  "\<exists>remoteConf.
     fetchRemoteConfig exampleEnv ''https://example.com/config.json'' 3600 0 False
         (None, exampleWorld)
       = (Some remoteConf, Some \<lparr>config = remoteConf, timestamp = 0\<rparr>, exampleWorld)
     \<and> parsedSources remoteConf = Some [looseEntry]"
proof -
  have p: "JSON_parse exampleEnv configText = Some configDocument"
    by (simp add: exampleEnv_def parse_config)
  have g: "getProp configDocument ''sources''
             = Some (Arr [looseEntry, Obj [(''language'', Num ''7''), (''url'', Str ''x'')],
                          Null, Str ''text''])"
    by (simp add: configDocument_def)
  have c: "cachedConfig False None (3600 * 1000) 0 = None" by (simp add: cachedConfig_def)
  have u: "''https://example.com/config.json'' \<noteq> []" by simp
  from remote_entries_checked_for_language_and_url [OF u c fetch_config p g, of exampleWorld]
  obtain remoteConf where
    "fetchRemoteConfig exampleEnv ''https://example.com/config.json'' 3600 0 False
         (None, exampleWorld)
       = (Some remoteConf, Some \<lparr>config = remoteConf, timestamp = 0\<rparr>, exampleWorld)"
    "parsedSources remoteConf
       = Some (filter keepSource [looseEntry, Obj [(''language'', Num ''7''), (''url'', Str ''x'')],
                                  Null, Str ''text''])"
    by blast
  then show ?thesis by (intro exI[of _ remoteConf]) (simp add: keep_examples)
qed

text \<open>
  C8 as stated fails: the entry \<open>looseEntry\<close>, with a string for \<open>enabled\<close> and a number for
  \<open>destinationFolder\<close>, is kept.
\<close>

theorem loose_entry_survives_counterexample:
  "fst (fetchRemoteConfig exampleEnv ''https://example.com/config.json'' 3600 0 False
          (None, exampleWorld))
     = Some \<lparr>parsedSources = Some [looseEntry], parsedSyncOnOpen = Some True,
             parsedSyncOnConfigChange = None, parsedConfirmBeforeSync = None\<rparr>
   \<and> \<not> wellTypedSource looseEntry
   \<and> typeof (field [(''language'', Str ''C#''), (''url'', Str ''https://example.com/a.md''),
          (''enabled'', Str ''no''), (''destinationFolder'', Num ''42'')] ''enabled'') = ''string''
   \<and> typeof (field [(''language'', Str ''C#''), (''url'', Str ''https://example.com/a.md''),
          (''enabled'', Str ''no''), (''destinationFolder'', Num ''42'')] ''destinationFolder'')
       = ''number''"
proof -
  have p: "JSON_parse exampleEnv configText = Some configDocument"
    by (simp add: exampleEnv_def parse_config)
  have b: "buildRemoteConf configDocument
             = Inr \<lparr>parsedSources = Some [looseEntry], parsedSyncOnOpen = Some True,
                    parsedSyncOnConfigChange = None, parsedConfirmBeforeSync = None\<rparr>"
    by (simp add: buildRemoteConf_def configDocument_def booleanField_def keep_examples)
  have l: "loadRemoteConf exampleEnv exampleWorld ''https://example.com/config.json''
             = Inr \<lparr>parsedSources = Some [looseEntry], parsedSyncOnOpen = Some True,
                    parsedSyncOnConfigChange = None, parsedConfirmBeforeSync = None\<rparr>"
    by (simp add: loadRemoteConf_def fetch_config p b)
  have f: "fst (fetchRemoteConfig exampleEnv ''https://example.com/config.json'' 3600 0 False
                  (None, exampleWorld))
             = Some \<lparr>parsedSources = Some [looseEntry], parsedSyncOnOpen = Some True,
                     parsedSyncOnConfigChange = None, parsedConfirmBeforeSync = None\<rparr>"
    by (simp add: fetchRemoteConfig_def cachedConfig_def l Let_def)
  have w: "\<not> wellTypedSource looseEntry"
    by (simp add: wellTypedSource_def looseEntry_def optionalOf_def field_def)
  from f w show ?thesis by (simp add: field_def)
qed

end
